theory Spec2Isabelle
  imports Complex_Main
begin

section \<open>The training script \<^verbatim>\<open>train.py\<close>\<close>

text \<open>
  \<^verbatim>\<open>train.py\<close> drives a tensor framework: it builds a network, an optimizer and a
  loss, walks the epochs and the batches of two loaders, and logs averaged statistics.
  The model below keeps the script's control flow, its local variables and the order
  of its calls. What the framework computes (forward pass, loss, gradients, optimizer
  update) is a parameter of the model, a record of functions. Python floats are
  idealised as \<^typ>\<open>real\<close>.
\<close>

subsection \<open>Tensors, options, errors\<close>

datatype device = CPU | CUDA

text \<open>A tensor: the device it lives on and its values, flattened.\<close>

record tensor =
  device :: device
  data :: "real list"

text \<open>\<^verbatim>\<open>t.cuda()\<close>\<close>

definition cuda :: "tensor \<Rightarrow> tensor" where
  "cuda t = t\<lparr>device := CUDA\<rparr>"

text \<open>\<^verbatim>\<open>t * c\<close>, elementwise\<close>

definition tensor_mul :: "tensor \<Rightarrow> real \<Rightarrow> tensor" where
  "tensor_mul t c = t\<lparr>data := map (\<lambda>x. x * c) (data t)\<rparr>"

text \<open>
  A batched value \<^verbatim>\<open>x\<close> of the audio+video loader: a loader's batch holds at least
  one sample, so \<^verbatim>\<open>x[0]\<close> is always there.
\<close>

datatype 'a batched = Batch 'a "'a list"

fun index0 :: "'a batched \<Rightarrow> 'a" where
  "index0 (Batch x xs) = x"

datatype error = ZeroDivisionError | IndexError | ValueError | UnboundLocalError

text \<open>The options \<^verbatim>\<open>opt\<close> returned by \<^verbatim>\<open>setup_main()\<close>: the fields the script reads.\<close>

record opt =
  opt_epoch :: int
  opt_n_epochs :: int
  opt_checkpoint_interval :: int
  opt_cuda :: bool
  opt_benchmark :: bool
  opt_net :: string
  opt_device :: string
  opt_lr :: real
  opt_b1 :: real
  opt_b2 :: real
  opt_checkpoint_dir :: string
  opt_name :: string

text \<open>Python's \<^verbatim>\<open>a % b\<close> on integers: floored, and an error when \<^verbatim>\<open>b\<close> is zero.\<close>

definition py_mod :: "int \<Rightarrow> int \<Rightarrow> error + int" where
  "py_mod a b = (if b = 0 then Inl ZeroDivisionError else Inr (a mod b))"

text \<open>Python's \<^verbatim>\<open>v / n\<close> with \<^verbatim>\<open>n = len(loader)\<close>.\<close>

definition py_truediv :: "real \<Rightarrow> nat \<Rightarrow> error + real" where
  "py_truediv v n = (if n = 0 then Inl ZeroDivisionError else Inr (v / real n))"

subsection \<open>The calls the script makes, and the state they act on\<close>

datatype writer = Train_writer | Test_writer

datatype arch = CrNN_audio nat nat nat | CrNN nat nat nat

datatype loss_kind = BCELoss | CrossEntropyLoss

text \<open>
  One constructor per call into the framework or the console. \<open>'x\<close> is what the network
  is called on, \<open>'l\<close> the labels. \<open>Net_call m x\<close> is \<^verbatim>\<open>net(...)\<close> on \<open>x\<close> while the
  network's training flag is \<open>m\<close>. \<open>Print tag e n kvs\<close> stands for the printed line
  \<^verbatim>\<open>'[tag] e/n k: avg  ...'\<close>.
\<close>

datatype ('x, 'l) event =
    Load_state_dict string
  | Net_cuda
  | Net_train
  | Net_eval
  | Zero_grad
  | Tensor_cuda tensor
  | Net_call bool 'x
  | Criterion_call tensor 'l
  | Backward
  | Optimizer_step
  | Add_scalar writer string real int
  | Print string int int "(string \<times> real) list"
  | Save_if_best real

text \<open>
  The state: the network (parameters, device, training flag), autograd (whether
  gradients are recorded, the gradients), the optimizer's state, the loop variable
  \<^verbatim>\<open>epoch\<close> (\<open>None\<close> before the loop) and the log of the calls made so far, each with
  the value \<^verbatim>\<open>epoch\<close> had when it was made.
\<close>

record ('x, 'l) world =
  params :: "real list"
  net_device :: device
  training :: bool
  grad_enabled :: bool
  grads :: "real list"
  opt_state :: "real list"
  cur_epoch :: "int option"
  trace :: "(int option \<times> ('x, 'l) event) list"

text \<open>
  The framework: the model constructor and \<^verbatim>\<open>torch.load\<close>, the forward pass (a function
  of the parameters, the training flag and the input), the loss, what
  \<^verbatim>\<open>losses.backward()\<close> adds to the gradients, the optimizer's constructor and step, and
  the accuracy expression
  \<^verbatim>\<open>(labels == output.round()).cpu().numpy().astype(bool).all(1).mean()\<close>.
  A forward pass reads the network and leaves it as it is; the criteria
  \<^verbatim>\<open>BCELoss()\<close> and \<^verbatim>\<open>CrossEntropyLoss()\<close> reduce to one number. What the framework
  raises by itself (a tensor on the wrong device, a file that is missing) is outside the
  model.
\<close>

record ('x, 'l) framework =
  fw_model :: "arch \<Rightarrow> real list"
  fw_load :: "string \<Rightarrow> real list"
  fw_forward :: "real list \<Rightarrow> bool \<Rightarrow> 'x \<Rightarrow> tensor"
  fw_criterion :: "loss_kind \<Rightarrow> tensor \<Rightarrow> 'l \<Rightarrow> real"
  fw_backward :: "real list \<Rightarrow> 'x \<Rightarrow> 'l \<Rightarrow> real list \<Rightarrow> real list"
  fw_adam :: "real \<Rightarrow> real \<times> real \<Rightarrow> real list \<Rightarrow> real list"
  fw_step :: "real list \<Rightarrow> real list \<Rightarrow> real list \<Rightarrow> real list \<times> real list"
  fw_accuracy :: "'l \<Rightarrow> tensor \<Rightarrow> real"

definition emit :: "('x, 'l) event \<Rightarrow> ('x, 'l) world \<Rightarrow> ('x, 'l) world" where
  "emit ev w = w\<lparr>trace := trace w @ [(cur_epoch w, ev)]\<rparr>"

text \<open>\<^verbatim>\<open>net.train()\<close>, \<^verbatim>\<open>net.eval()\<close>, \<^verbatim>\<open>optimizer.zero_grad()\<close>,
  \<^verbatim>\<open>losses.backward()\<close>, \<^verbatim>\<open>optimizer.step()\<close>\<close>

definition net_train :: "('x, 'l) world \<Rightarrow> ('x, 'l) world" where
  "net_train w = emit Net_train (w\<lparr>training := True\<rparr>)"

definition net_eval :: "('x, 'l) world \<Rightarrow> ('x, 'l) world" where
  "net_eval w = emit Net_eval (w\<lparr>training := False\<rparr>)"

definition zero_grad :: "('x, 'l) world \<Rightarrow> ('x, 'l) world" where
  "zero_grad w = emit Zero_grad (w\<lparr>grads := map (\<lambda>g. 0) (grads w)\<rparr>)"

definition backward :: "('x, 'l) framework \<Rightarrow> 'x \<Rightarrow> 'l \<Rightarrow> ('x, 'l) world \<Rightarrow> ('x, 'l) world" where
  "backward fw x labels w =
     emit Backward (w\<lparr>grads := fw_backward fw (params w) x labels (grads w)\<rparr>)"

definition optimizer_step :: "('x, 'l) framework \<Rightarrow> ('x, 'l) world \<Rightarrow> ('x, 'l) world" where
  "optimizer_step fw w =
     (case fw_step fw (params w) (grads w) (opt_state w) of
        (p, s) \<Rightarrow> emit Optimizer_step (w\<lparr>params := p, opt_state := s\<rparr>))"

text \<open>\<^verbatim>\<open>net(x)\<close>: the output, and the call logged with the network's current mode.\<close>

definition net_call :: "('x, 'l) framework \<Rightarrow> 'x \<Rightarrow> ('x, 'l) world \<Rightarrow> tensor \<times> ('x, 'l) world" where
  "net_call fw x w = (fw_forward fw (params w) (training w) x, emit (Net_call (training w) x) w)"

definition criterion_call ::
  "('x, 'l) framework \<Rightarrow> loss_kind \<Rightarrow> tensor \<Rightarrow> 'l \<Rightarrow> ('x, 'l) world \<Rightarrow> real \<times> ('x, 'l) world" where
  "criterion_call fw k output labels w =
     (fw_criterion fw k output labels, emit (Criterion_call output labels) w)"

subsection \<open>The audio variant: one training batch, one test batch\<close>

type_synonym audio_batch = "tensor \<times> tensor \<times> nat list"
type_synonym audio_in = "tensor \<times> nat list"
type_synonym stats = "(string \<times> real) list"

text \<open>The guarded move of lines 70-72 and 85-87.\<close>

definition move_if_cuda ::
  "opt \<Rightarrow> tensor \<Rightarrow> tensor \<Rightarrow> ('x, 'l) world \<Rightarrow> tensor \<times> tensor \<times> ('x, 'l) world" where
  "move_if_cuda opt volumes labels w =
     (if opt_cuda opt
      then (cuda volumes, cuda labels, emit (Tensor_cuda labels) (emit (Tensor_cuda volumes) w))
      else (volumes, labels, w))"

definition train_audio ::
  "(audio_in, tensor) framework \<Rightarrow> loss_kind \<Rightarrow> opt \<Rightarrow> audio_batch \<Rightarrow> (audio_in, tensor) world
     \<Rightarrow> (stats \<times> tensor) \<times> (audio_in, tensor) world" where
  "train_audio fw criterion opt dat w =
     (let w = net_train w;
          w = zero_grad w;
          (volumes, labels, lengths) = dat;
          (volumes, labels, w) = move_if_cuda opt volumes labels w;
          x = (tensor_mul volumes 100, lengths);
          (output, w) = net_call fw x w;
          (losses, w) = criterion_call fw criterion output labels w;
          w = backward fw x labels w;
          w = optimizer_step fw w
      in (([(''train loss'', losses), (''accuracy'', fw_accuracy fw labels output)], output), w))"

definition test_audio ::
  "(audio_in, tensor) framework \<Rightarrow> loss_kind \<Rightarrow> opt \<Rightarrow> audio_batch \<Rightarrow> (audio_in, tensor) world
     \<Rightarrow> (stats \<times> tensor) \<times> (audio_in, tensor) world" where
  "test_audio fw criterion opt dat w =
     (let w = net_eval w;
          (volumes, labels, lengths) = dat;
          (volumes, labels, w) = move_if_cuda opt volumes labels w;
          x = (volumes, lengths);
          (output, w) = net_call fw x w;
          (losses, w) = criterion_call fw criterion output labels w
      in (([(''test loss'', losses), (''accuracy'', fw_accuracy fw labels output)], output), w))"

subsection \<open>The audio+video variant: one training batch, one test batch\<close>

type_synonym av_batch = "tensor batched \<times> tensor batched \<times> int batched"
type_synonym av_in = "tensor \<times> tensor"

text \<open>
  \<^verbatim>\<open>Variable(net(...), requires_grad=True)\<close> holds the values of the network's output;
  \<^verbatim>\<open>losses.mean()\<close> and \<^verbatim>\<open>losses.sum()\<close> of the scalar loss are the loss.
\<close>

definition train ::
  "(av_in, int batched) framework \<Rightarrow> loss_kind \<Rightarrow> opt \<Rightarrow> av_batch \<Rightarrow> (av_in, int batched) world
     \<Rightarrow> stats \<times> (av_in, int batched) world" where
  "train fw criterion opt dat w =
     (let w = net_train w;
          w = zero_grad w;
          (frames, volumes, labels) = dat;
          x = (index0 frames, index0 volumes);
          (output, w) = net_call fw x w;
          (losses, w) = criterion_call fw criterion output labels w;
          w = backward fw x labels w;
          w = optimizer_step fw w
      in ([(''train loss'', losses)], w))"

definition test ::
  "(av_in, int batched) framework \<Rightarrow> loss_kind \<Rightarrow> opt \<Rightarrow> av_batch \<Rightarrow> (av_in, int batched) world
     \<Rightarrow> stats \<times> (av_in, int batched) world" where
  "test fw criterion opt dat w =
     (let w = net_eval w;
          (frames, volumes, labels) = dat;
          frame = index0 frames;
          audio = index0 volumes;
          (output, w) = net_call fw (frame, audio) w;
          (losses, w) = criterion_call fw criterion output labels w
      in ([(''test loss'', losses)], w))"

subsection \<open>Statistics\<close>

text \<open>
  Modelled from the spec: one step of \<^verbatim>\<open>update_stats\<close> (see below), adding the value
  \<open>v\<close> to the entry of the statistics under the key \<open>k\<close>. The statistics are a
  \<^verbatim>\<open>defaultdict(float)\<close>: a key not seen before starts from \<open>0\<close> and goes last in the
  iteration order.
\<close>

fun add_stat :: "stats \<Rightarrow> string \<times> real \<Rightarrow> stats" where
  "add_stat [] (k, v) = [(k, 0 + v)]"
| "add_stat ((k', a) # kvs) (k, v) =
     (if k' = k then (k', a + v) # kvs else (k', a) # add_stat kvs (k, v))"

text \<open>
  Modelled from the spec: \<^verbatim>\<open>update_stats\<close> is imported from \<^verbatim>\<open>main\<close>, which is not
  among the sources. The spec says the script accumulates scalar statistics and
  averages them: \<^verbatim>\<open>update_stats(avg_stats, loss)\<close> adds each value of \<^verbatim>\<open>loss\<close> to the
  entry of \<^verbatim>\<open>avg_stats\<close> under the same key.
\<close>

definition update_stats :: "stats \<Rightarrow> stats \<Rightarrow> stats" where
  "update_stats avg_stats loss = foldl add_stat avg_stats loss"

text \<open>
  \<^verbatim>\<open>for i, data in enumerate(loader): loss = step(data); update_stats(avg_stats, loss)\<close>,
  the loop of the blocks \<^verbatim>\<open># Training\<close> and \<^verbatim>\<open># Testing\<close>. A loader is the list of
  the batches it yields, and \<^verbatim>\<open>len(loader)\<close> is its length.
\<close>

fun pass ::
  "('b \<Rightarrow> ('x, 'l) world \<Rightarrow> stats \<times> ('x, 'l) world) \<Rightarrow> 'b list \<Rightarrow> stats \<times> ('x, 'l) world
     \<Rightarrow> stats \<times> ('x, 'l) world" where
  "pass step [] (avg_stats, w) = (avg_stats, w)"
| "pass step (dat # rest) (avg_stats, w) =
     (case step dat w of (loss, w') \<Rightarrow> pass step rest (update_stats avg_stats loss, w'))"

text \<open>\<^verbatim>\<open>with torch.no_grad(): ...\<close>\<close>

definition no_grad ::
  "(('x, 'l) world \<Rightarrow> 'a \<times> ('x, 'l) world) \<Rightarrow> ('x, 'l) world \<Rightarrow> 'a \<times> ('x, 'l) world" where
  "no_grad body w =
     (case body (w\<lparr>grad_enabled := False\<rparr>) of
        (r, w') \<Rightarrow> (r, w'\<lparr>grad_enabled := grad_enabled w\<rparr>))"

text \<open>
  \<^verbatim>\<open>for k, v in avg_stats.items(): avg = v / len(loader); writer.add_scalar(k, avg, epoch);
  str_out += ...\<close>. The local variable \<^verbatim>\<open>avg\<close> is \<open>None\<close> while it is unbound.
\<close>

fun log_items ::
  "writer \<Rightarrow> int \<Rightarrow> nat \<Rightarrow> stats \<Rightarrow> real option \<times> stats \<times> ('x, 'l) world
     \<Rightarrow> error \<times> ('x, 'l) world + real option \<times> stats \<times> ('x, 'l) world" where
  "log_items wr epoch n [] (avg, str_out, w) = Inr (avg, str_out, w)"
| "log_items wr epoch n ((k, v) # kvs) (avg, str_out, w) =
     (case py_truediv v n of
        Inl err \<Rightarrow> Inl (err, w)
      | Inr a \<Rightarrow>
          log_items wr epoch n kvs (Some a, str_out @ [(k, a)], emit (Add_scalar wr k a epoch) w))"

text \<open>The blocks \<^verbatim>\<open># Log training progress\<close> and \<^verbatim>\<open># Log testing progress\<close>, from
  \<^verbatim>\<open>str_out = ...\<close> to \<^verbatim>\<open>print(str_out)\<close>, without the \<^verbatim>\<open>avg = 0\<close> of the second.\<close>

definition log_progress ::
  "string \<Rightarrow> writer \<Rightarrow> opt \<Rightarrow> int \<Rightarrow> nat \<Rightarrow> stats \<Rightarrow> real option \<times> ('x, 'l) world
     \<Rightarrow> error \<times> ('x, 'l) world + real option \<times> ('x, 'l) world" where
  "log_progress tag wr opt epoch n avg_stats s =
     (case s of (avg, w) \<Rightarrow>
        (case log_items wr epoch n avg_stats (avg, [], w) of
           Inl err \<Rightarrow> Inl err
         | Inr (avg, str_out, w) \<Rightarrow>
             Inr (avg, emit (Print tag epoch (opt_n_epochs opt) str_out) w)))"

text \<open>\<^verbatim>\<open>if epoch % opt.checkpoint_interval == 0: net_saver.save_if_best(net, avg)\<close>\<close>

definition checkpoint ::
  "opt \<Rightarrow> int \<Rightarrow> real option \<times> ('x, 'l) world
     \<Rightarrow> error \<times> ('x, 'l) world + real option \<times> ('x, 'l) world" where
  "checkpoint opt epoch s =
     (case s of (avg, w) \<Rightarrow>
        (case py_mod epoch (opt_checkpoint_interval opt) of
           Inl err \<Rightarrow> Inl (err, w)
         | Inr r \<Rightarrow>
             if r = 0
             then (case avg of
                     None \<Rightarrow> Inl (UnboundLocalError, w)
                   | Some a \<Rightarrow> Inr (avg, emit (Save_if_best a) w))
             else Inr (avg, w)))"

subsection \<open>The epoch loop of \<^verbatim>\<open>run_audio\<close> and \<^verbatim>\<open>run\<close>\<close>

text \<open>
  The body of \<^verbatim>\<open>for epoch in tqdm(range(opt.epoch, opt.n_epochs))\<close>, which the two
  functions share word for word but for the call that handles a batch:
  \<open>train_step\<close> and \<open>test_step\<close> stand for it.
\<close>

definition epoch_body ::
  "opt \<Rightarrow> ('b \<Rightarrow> ('x, 'l) world \<Rightarrow> stats \<times> ('x, 'l) world) \<Rightarrow> 'b list
     \<Rightarrow> ('b \<Rightarrow> ('x, 'l) world \<Rightarrow> stats \<times> ('x, 'l) world) \<Rightarrow> 'b list
     \<Rightarrow> int \<Rightarrow> real option \<times> ('x, 'l) world
     \<Rightarrow> error \<times> ('x, 'l) world + real option \<times> ('x, 'l) world" where
  "epoch_body opt train_step train_loader test_step test_loader epoch s =
     (case s of (avg, w) \<Rightarrow>
        (let w = w\<lparr>cur_epoch := Some epoch\<rparr>;
             (avg_stats, w) = pass train_step train_loader ([], w)
         in case log_progress ''train'' Train_writer opt epoch (length train_loader) avg_stats (avg, w) of
              Inl err \<Rightarrow> Inl err
            | Inr (avg, w) \<Rightarrow>
                (let (avg_stats, w) = no_grad (\<lambda>w. pass test_step test_loader ([], w)) w;
                     avg = Some 0
                 in case log_progress ''test'' Test_writer opt epoch (length test_loader) avg_stats (avg, w) of
                      Inl err \<Rightarrow> Inl err
                    | Inr s' \<Rightarrow> checkpoint opt epoch s')))"

fun epochs_loop ::
  "(int \<Rightarrow> 's \<Rightarrow> 'e + 's) \<Rightarrow> int list \<Rightarrow> 's \<Rightarrow> 'e + 's" where
  "epochs_loop body [] s = Inr s"
| "epochs_loop body (epoch # rest) s =
     (case body epoch s of Inl err \<Rightarrow> Inl err | Inr s' \<Rightarrow> epochs_loop body rest s')"

text \<open>\<^verbatim>\<open>range(a, b)\<close>\<close>

definition py_range :: "int \<Rightarrow> int \<Rightarrow> int list" where
  "py_range a b = [a..b - 1]"

subsection \<open>Building the network\<close>

text \<open>A network fresh from its constructor: on the CPU, in training mode.\<close>

definition new_model :: "('x, 'l) framework \<Rightarrow> arch \<Rightarrow> ('x, 'l) world" where
  "new_model fw a =
     \<lparr>params = fw_model fw a, net_device = CPU, training = True, grad_enabled = True,
      grads = map (\<lambda>p. 0) (fw_model fw a), opt_state = [], cur_epoch = None, trace = []\<rparr>"

definition model_cuda :: "('x, 'l) world \<Rightarrow> ('x, 'l) world" where
  "model_cuda w = emit Net_cuda (w\<lparr>net_device := CUDA\<rparr>)"

definition load_or_init_models :: "('x, 'l) framework \<Rightarrow> opt \<Rightarrow> ('x, 'l) world \<Rightarrow> ('x, 'l) world" where
  "load_or_init_models fw opt model =
     (let model = (if opt_net opt \<noteq> []
                   then emit (Load_state_dict (opt_net opt)) (model\<lparr>params := fw_load fw (opt_net opt)\<rparr>)
                   else model);
          model = (if opt_cuda opt then model_cuda model else model)
      in model)"

text \<open>\<^verbatim>\<open>torch.optim.Adam(net.parameters(), lr=opt.lr, betas=(opt.b1, opt.b2))\<close>\<close>

definition adam :: "('x, 'l) framework \<Rightarrow> opt \<Rightarrow> ('x, 'l) world \<Rightarrow> ('x, 'l) world" where
  "adam fw opt w = w\<lparr>opt_state := fw_adam fw (opt_lr opt) (opt_b1 opt, opt_b2 opt) (params w)\<rparr>"

subsection \<open>\<^verbatim>\<open>run_audio\<close> and \<^verbatim>\<open>run\<close>\<close>

text \<open>
  \<^verbatim>\<open>initialize_loaders\<close> (from \<^verbatim>\<open>data\<close>) and \<^verbatim>\<open>to_variables\<close> (from \<^verbatim>\<open>main\<close>) are
  parameters; the second argument of \<open>initialize_loaders\<close> is the keyword \<^verbatim>\<open>type\<close>,
  \<open>None\<close> when the call leaves it out. Of the saver and the two writers, built from
  \<^verbatim>\<open>opt.checkpoint_dir\<close> and \<^verbatim>\<open>opt.name\<close>, the model keeps the calls made on them.
\<close>

definition run_audio ::
  "(audio_in, tensor) framework \<Rightarrow> (opt \<Rightarrow> int option \<Rightarrow> audio_batch list \<times> audio_batch list) \<Rightarrow> opt
     \<Rightarrow> error \<times> (audio_in, tensor) world + real option \<times> (audio_in, tensor) world" where
  "run_audio fw initialize_loaders opt =
     (let (train_loader, test_loader) = initialize_loaders opt (Some 1);
          net = model_cuda (load_or_init_models fw opt (new_model fw (CrNN_audio 1 10 2)));
          net = adam fw opt net;
          criterion = BCELoss
      in epochs_loop
           (epoch_body opt
              (\<lambda>dat w. case train_audio fw criterion opt dat w of ((loss, output), w') \<Rightarrow> (loss, w'))
              train_loader
              (\<lambda>dat w. case test_audio fw criterion opt dat w of ((loss, output), w') \<Rightarrow> (loss, w'))
              test_loader)
           (py_range (opt_epoch opt) (opt_n_epochs opt)) (None, net))"

definition run ::
  "(av_in, int batched) framework \<Rightarrow> (opt \<Rightarrow> int option \<Rightarrow> 'b list \<times> 'b list)
     \<Rightarrow> ('b \<Rightarrow> bool \<Rightarrow> string \<Rightarrow> bool \<Rightarrow> av_batch) \<Rightarrow> opt
     \<Rightarrow> error \<times> (av_in, int batched) world + real option \<times> (av_in, int batched) world" where
  "run fw initialize_loaders to_variables opt =
     (let (train_loader, test_loader) = initialize_loaders opt None;
          net = model_cuda (load_or_init_models fw opt (new_model fw (CrNN 130 10 1)));
          net = adam fw opt net;
          criterion = CrossEntropyLoss
      in epochs_loop
           (epoch_body opt
              (\<lambda>dat w. train fw criterion opt (to_variables dat (opt_cuda opt) (opt_device opt) False) w)
              train_loader
              (\<lambda>dat w. test fw criterion opt (to_variables dat (opt_cuda opt) (opt_device opt) True) w)
              test_loader)
           (py_range (opt_epoch opt) (opt_n_epochs opt)) (None, net))"

subsection \<open>\<^verbatim>\<open>benchmark\<close>\<close>

text \<open>
  A one-dimensional numpy array of floats: its cells, and the indices assigned so far,
  in the order of the assignments.
\<close>

record ndarray =
  cells :: "real list"
  written :: "nat list"

definition np_zeros :: "nat \<Rightarrow> ndarray" where
  "np_zeros n = \<lparr>cells = replicate n 0, written = []\<rparr>"

text \<open>
  \<^verbatim>\<open>a[i] = x\<close> with \<open>vals\<close> the elements of \<^verbatim>\<open>x\<close>: the index must be in range and
  \<^verbatim>\<open>x\<close> must hold one element.
\<close>

definition setitem :: "ndarray \<Rightarrow> nat \<Rightarrow> real list \<Rightarrow> error + ndarray" where
  "setitem a i vals =
     (if length (cells a) \<le> i then Inl IndexError
      else case vals of
             [v] \<Rightarrow> Inr (a\<lparr>cells := (cells a)[i := v], written := written a @ [i]\<rparr>)
           | _ \<Rightarrow> Inl ValueError)"

text \<open>\<^verbatim>\<open>np.round\<close> of one float: to the nearest integer, a tie to the even one.\<close>

definition np_round :: "real \<Rightarrow> real" where
  "np_round x =
     (let f = \<lfloor>x\<rfloor>; d = x - of_int f
      in if d < 1 / 2 then of_int f
         else if 1 / 2 < d then of_int (f + 1)
         else if even f then of_int f else of_int (f + 1))"

text \<open>One of the two \<^verbatim>\<open>for i, data in enumerate(...)\<close> loops of \<^verbatim>\<open>benchmark\<close>.\<close>

fun bench_loop ::
  "(av_in, int batched) framework \<Rightarrow> ('b \<Rightarrow> bool \<Rightarrow> string \<Rightarrow> bool \<Rightarrow> av_batch) \<Rightarrow> opt \<Rightarrow> 'b list
     \<Rightarrow> ndarray \<times> ndarray \<times> nat \<times> (av_in, int batched) world
     \<Rightarrow> error + ndarray \<times> ndarray \<times> nat \<times> (av_in, int batched) world" where
  "bench_loop fw to_variables opt [] s = Inr s"
| "bench_loop fw to_variables opt (dat # rest) (output, label_glob, idx, w) =
     (let (frames, volumes, labels) = to_variables dat (opt_cuda opt) (opt_device opt) True;
          frame = index0 frames;
          audio = index0 volumes;
          (out, w) = net_call fw (frame, audio) w
      in case setitem output idx (data out) of
           Inl err \<Rightarrow> Inl err
         | Inr output \<Rightarrow>
             (case setitem label_glob idx [of_int (index0 labels)] of
                Inl err \<Rightarrow> Inl err
              | Inr label_glob \<Rightarrow>
                  bench_loop fw to_variables opt rest (output, label_glob, idx + 1, w)))"

text \<open>
  \<^verbatim>\<open>benchmark\<close> up to the end of its \<^verbatim>\<open>with torch.no_grad()\<close> block: the arrays,
  \<^verbatim>\<open>idx\<close> and the network.
\<close>

definition benchmark_loops ::
  "(av_in, int batched) framework \<Rightarrow> (opt \<Rightarrow> int option \<Rightarrow> 'b list \<times> 'b list)
     \<Rightarrow> ('b \<Rightarrow> bool \<Rightarrow> string \<Rightarrow> bool \<Rightarrow> av_batch) \<Rightarrow> opt
     \<Rightarrow> error + ndarray \<times> ndarray \<times> nat \<times> (av_in, int batched) world" where
  "benchmark_loops fw initialize_loaders to_variables opt =
     (let (train_loader, test_loader) = initialize_loaders opt None;
          net = model_cuda (load_or_init_models fw opt (new_model fw (CrNN 130 10 1)));
          output = np_zeros (length test_loader + length train_loader);
          label_glob = np_zeros (length test_loader + length train_loader);
          idx = 0
      in case bench_loop fw to_variables opt train_loader
                (output, label_glob, idx, net\<lparr>grad_enabled := False\<rparr>) of
           Inl err \<Rightarrow> Inl err
         | Inr s \<Rightarrow>
             (case bench_loop fw to_variables opt test_loader s of
                Inl err \<Rightarrow> Inl err
              | Inr (output, label_glob, idx, w) \<Rightarrow>
                  Inr (output, label_glob, idx, w\<lparr>grad_enabled := grad_enabled net\<rparr>)))"

definition benchmark ::
  "(av_in, int batched) framework \<Rightarrow> (opt \<Rightarrow> int option \<Rightarrow> 'b list \<times> 'b list)
     \<Rightarrow> ('b \<Rightarrow> bool \<Rightarrow> string \<Rightarrow> bool \<Rightarrow> av_batch) \<Rightarrow> opt \<Rightarrow> error + real list" where
  "benchmark fw initialize_loaders to_variables opt =
     (case benchmark_loops fw initialize_loaders to_variables opt of
        Inl err \<Rightarrow> Inl err
      | Inr (output, label_glob, idx, w) \<Rightarrow>
          (let final_tag = map np_round (cells output) in Inr final_tag))"

subsection \<open>The entry point\<close>

text \<open>\<^verbatim>\<open>if opt.benchmark: benchmark(opt) else: run_audio(opt)\<close>, with \<^verbatim>\<open>opt\<close> given.\<close>

definition main ::
  "(audio_in, tensor) framework \<Rightarrow> (av_in, int batched) framework
     \<Rightarrow> (opt \<Rightarrow> int option \<Rightarrow> audio_batch list \<times> audio_batch list)
     \<Rightarrow> (opt \<Rightarrow> int option \<Rightarrow> 'b list \<times> 'b list)
     \<Rightarrow> ('b \<Rightarrow> bool \<Rightarrow> string \<Rightarrow> bool \<Rightarrow> av_batch) \<Rightarrow> opt
     \<Rightarrow> (error + real list) + (error \<times> (audio_in, tensor) world + real option \<times> (audio_in, tensor) world)" where
  "main fw_audio fw_av loaders_audio loaders_av to_variables opt =
     (if opt_benchmark opt
      then Inl (benchmark fw_av loaders_av to_variables opt)
      else Inr (run_audio fw_audio loaders_audio opt))"

text \<open>
  The functions of the file and the calls their bodies hold to one another; the two
  calls of the entry point are each under one branch of \<^verbatim>\<open>if opt.benchmark\<close>.
\<close>

datatype routine =
  Main | Run_audio | Train_audio | Test_audio | Run | Train | Test | Benchmark | Load_or_init_models

fun calls :: "opt \<Rightarrow> routine \<Rightarrow> routine list" where
  "calls opt Main = (if opt_benchmark opt then [Benchmark] else [Run_audio])"
| "calls opt Run_audio = [Load_or_init_models, Train_audio, Test_audio]"
| "calls opt Run = [Load_or_init_models, Train, Test]"
| "calls opt Benchmark = [Load_or_init_models]"
| "calls opt Train_audio = []"
| "calls opt Test_audio = []"
| "calls opt Train = []"
| "calls opt Test = []"
| "calls opt Load_or_init_models = []"

inductive reached :: "opt \<Rightarrow> routine \<Rightarrow> bool" for opt :: opt where
  entry: "reached opt Main"
| call: "reached opt f \<Longrightarrow> g \<in> set (calls opt f) \<Longrightarrow> reached opt g"

code_pred reached .

section \<open>Vocabulary of the statements\<close>

text \<open>Several calls logged at once, and what a run leaves behind, whether it raised or not.\<close>

definition emits :: "('x, 'l) event list \<Rightarrow> ('x, 'l) world \<Rightarrow> ('x, 'l) world" where
  "emits evs w = w\<lparr>trace := trace w @ map (Pair (cur_epoch w)) evs\<rparr>"

definition final_world :: "'e \<times> 'w + 'a \<times> 'w \<Rightarrow> 'w" where
  "final_world r = (case r of Inl (err, w) \<Rightarrow> w | Inr (a, w) \<Rightarrow> w)"

text \<open>The error a run raised, if it raised one.\<close>

definition raised :: "'e \<times> 'w + 'a \<Rightarrow> 'e option" where
  "raised r = (case r of Inl (err, w) \<Rightarrow> Some err | Inr a \<Rightarrow> None)"

text \<open>The calls logged between two states, without their epoch tags.\<close>

definition new_calls :: "('x, 'l) world \<Rightarrow> ('x, 'l) world \<Rightarrow> ('x, 'l) event list" where
  "new_calls w w' = map snd (drop (length (trace w)) (trace w'))"

text \<open>A view of a log: what \<open>sel\<close> keeps of each entry, in order.\<close>

definition proj :: "('a \<Rightarrow> 'b list) \<Rightarrow> 'a list \<Rightarrow> 'b list" where
  "proj sel tr = concat (map sel tr)"

text \<open>The printed lines and the checkpoint saves, each with the epoch of the call.\<close>

datatype mark = Logged string | Saved

fun sel_mark :: "int option \<times> ('x, 'l) event \<Rightarrow> (int option \<times> mark) list" where
  "sel_mark (ep, Print tag e n kvs) = [(ep, Logged tag)]"
| "sel_mark (ep, Save_if_best a) = [(ep, Saved)]"
| "sel_mark (ep, ev) = []"

text \<open>The network calls made in training mode, each with the epoch of the call.\<close>

fun sel_train_call :: "int option \<times> ('x, 'l) event \<Rightarrow> (int option \<times> 'x) list" where
  "sel_train_call (ep, Net_call True x) = [(ep, x)]"
| "sel_train_call (ep, ev) = []"

text \<open>The printed lines: their tag and the epoch they print.\<close>

fun sel_print :: "int option \<times> ('x, 'l) event \<Rightarrow> (string \<times> int) list" where
  "sel_print (ep, Print tag e n kvs) = [(tag, e)]"
| "sel_print (ep, ev) = []"

text \<open>What the network is called on for a batch.\<close>

fun audio_train_input :: "opt \<Rightarrow> audio_batch \<Rightarrow> audio_in" where
  "audio_train_input opt (volumes, labels, lengths) =
     (tensor_mul (if opt_cuda opt then cuda volumes else volumes) 100, lengths)"

fun av_input :: "av_batch \<Rightarrow> av_in" where
  "av_input (frames, volumes, labels) = (index0 frames, index0 volumes)"

text \<open>
  The calls of a logging block for the statistics \<open>st\<close> and a loader of length \<open>n\<close>, and
  the value \<^verbatim>\<open>avg\<close> has after the second one.
\<close>

definition log_calls :: "string \<Rightarrow> writer \<Rightarrow> opt \<Rightarrow> int \<Rightarrow> nat \<Rightarrow> stats \<Rightarrow> ('x, 'l) event list" where
  "log_calls tag wr opt e n st =
     map (\<lambda>(k, v). Add_scalar wr k (v / real n) e) st @
     [Print tag e (opt_n_epochs opt) (map (\<lambda>(k, v). (k, v / real n)) st)]"

definition last_avg :: "stats \<Rightarrow> nat \<Rightarrow> real" where
  "last_avg st n = (if st = [] then 0 else snd (last st) / real n)"

text \<open>
  The epochs a run goes through: all of \<^verbatim>\<open>range(opt.epoch, opt.n_epochs)\<close>, or the first
  one only when \<^verbatim>\<open>opt.checkpoint_interval\<close> is zero and the modulo raises.
\<close>

definition epochs_run :: "opt \<Rightarrow> int list" where
  "epochs_run opt =
     (if opt_checkpoint_interval opt = 0
      then take 1 (py_range (opt_epoch opt) (opt_n_epochs opt))
      else py_range (opt_epoch opt) (opt_n_epochs opt))"

abbreviation audio_train_step ::
  "(audio_in, tensor) framework \<Rightarrow> loss_kind \<Rightarrow> opt \<Rightarrow> audio_batch \<Rightarrow> (audio_in, tensor) world
     \<Rightarrow> stats \<times> (audio_in, tensor) world" where
  "audio_train_step fw c opt \<equiv>
     (\<lambda>dat w. case train_audio fw c opt dat w of ((loss, output), w') \<Rightarrow> (loss, w'))"

abbreviation audio_test_step ::
  "(audio_in, tensor) framework \<Rightarrow> loss_kind \<Rightarrow> opt \<Rightarrow> audio_batch \<Rightarrow> (audio_in, tensor) world
     \<Rightarrow> stats \<times> (audio_in, tensor) world" where
  "audio_test_step fw c opt \<equiv>
     (\<lambda>dat w. case test_audio fw c opt dat w of ((loss, output), w') \<Rightarrow> (loss, w'))"

text \<open>The network calls of a list of calls: the mode and the input of each.\<close>

fun sel_call :: "('x, 'l) event \<Rightarrow> (bool \<times> 'x) list" where
  "sel_call (Net_call m x) = [(m, x)]"
| "sel_call ev = []"

text \<open>
  Inside one epoch started from \<open>w\<close>: the dictionary \<^verbatim>\<open>avg_stats\<close> at the end of the
  training loop, the state when the block \<^verbatim>\<open># Testing\<close> starts, and \<^verbatim>\<open>avg_stats\<close> at the
  end of the test loop.
\<close>

definition train_stats ::
  "('b \<Rightarrow> ('x, 'l) world \<Rightarrow> stats \<times> ('x, 'l) world) \<Rightarrow> 'b list \<Rightarrow> int \<Rightarrow> ('x, 'l) world \<Rightarrow> stats" where
  "train_stats trs trl e w = fst (pass trs trl ([], w\<lparr>cur_epoch := Some e\<rparr>))"

definition after_train_log ::
  "opt \<Rightarrow> ('b \<Rightarrow> ('x, 'l) world \<Rightarrow> stats \<times> ('x, 'l) world) \<Rightarrow> 'b list \<Rightarrow> int \<Rightarrow> ('x, 'l) world
     \<Rightarrow> ('x, 'l) world" where
  "after_train_log opt trs trl e w =
     (case pass trs trl ([], w\<lparr>cur_epoch := Some e\<rparr>) of
        (st, w') \<Rightarrow> emits (log_calls ''train'' Train_writer opt e (length trl) st) w')"

definition test_stats ::
  "opt \<Rightarrow> ('b \<Rightarrow> ('x, 'l) world \<Rightarrow> stats \<times> ('x, 'l) world) \<Rightarrow> 'b list
     \<Rightarrow> ('b \<Rightarrow> ('x, 'l) world \<Rightarrow> stats \<times> ('x, 'l) world) \<Rightarrow> 'b list \<Rightarrow> int \<Rightarrow> ('x, 'l) world \<Rightarrow> stats" where
  "test_stats opt trs trl tes tel e w =
     fst (pass tes tel ([], (after_train_log opt trs trl e w)\<lparr>grad_enabled := False\<rparr>))"

text \<open>The dictionaries the calls for the batches of a loader return, one per batch.\<close>

fun batch_losses ::
  "('b \<Rightarrow> ('x, 'l) world \<Rightarrow> stats \<times> ('x, 'l) world) \<Rightarrow> 'b list \<Rightarrow> ('x, 'l) world \<Rightarrow> stats list" where
  "batch_losses step [] w = []"
| "batch_losses step (dat # rest) w = (case step dat w of (loss, w') \<Rightarrow> loss # batch_losses step rest w')"

text \<open>
  The value of the statistic \<open>k\<close> in the dictionary of one batch (zero when it has no
  such key), its sum over the batches, and for each key that sum over \<open>n\<close>.
\<close>

definition stat_val :: "string \<Rightarrow> stats \<Rightarrow> real" where
  "stat_val k l = sum_list (map snd (filter (\<lambda>kv. fst kv = k) l))"

definition stat_sum :: "string \<Rightarrow> stats list \<Rightarrow> real" where
  "stat_sum k ls = sum_list (map (stat_val k) ls)"

text \<open>The scalars written, the lines printed with their values, the scores saved.\<close>

fun sel_scalar :: "int option \<times> ('x, 'l) event \<Rightarrow> (writer \<times> string \<times> real \<times> int) list" where
  "sel_scalar (ep, Add_scalar wr k a e) = [(wr, k, a, e)]"
| "sel_scalar (ep, ev) = []"

fun sel_printed :: "int option \<times> ('x, 'l) event \<Rightarrow> (string \<times> (string \<times> real) list) list" where
  "sel_printed (ep, Print tag e n kvs) = [(tag, kvs)]"
| "sel_printed (ep, ev) = []"

fun sel_score :: "int option \<times> ('x, 'l) event \<Rightarrow> (int option \<times> real) list" where
  "sel_score (ep, Save_if_best a) = [(ep, a)]"
| "sel_score (ep, ev) = []"

text \<open>The dictionaries of the training batches and of the test batches of that epoch.\<close>

definition train_losses ::
  "('b \<Rightarrow> ('x, 'l) world \<Rightarrow> stats \<times> ('x, 'l) world) \<Rightarrow> 'b list \<Rightarrow> int \<Rightarrow> ('x, 'l) world \<Rightarrow> stats list" where
  "train_losses trs trl e w = batch_losses trs trl (w\<lparr>cur_epoch := Some e\<rparr>)"

definition test_losses ::
  "opt \<Rightarrow> ('b \<Rightarrow> ('x, 'l) world \<Rightarrow> stats \<times> ('x, 'l) world) \<Rightarrow> 'b list
     \<Rightarrow> ('b \<Rightarrow> ('x, 'l) world \<Rightarrow> stats \<times> ('x, 'l) world) \<Rightarrow> 'b list \<Rightarrow> int \<Rightarrow> ('x, 'l) world \<Rightarrow> stats list" where
  "test_losses opt trs trl tes tel e w =
     batch_losses tes tel ((after_train_log opt trs trl e w)\<lparr>grad_enabled := False\<rparr>)"

definition averages :: "stats list \<Rightarrow> nat \<Rightarrow> string list \<Rightarrow> (string \<times> real) list" where
  "averages ls n keys = map (\<lambda>k. (k, stat_sum k ls / real n)) keys"

text \<open>The calls that handle a batch in \<^verbatim>\<open>run\<close>.\<close>

abbreviation av_train_step ::
  "(av_in, int batched) framework \<Rightarrow> loss_kind \<Rightarrow> ('b \<Rightarrow> bool \<Rightarrow> string \<Rightarrow> bool \<Rightarrow> av_batch) \<Rightarrow> opt
     \<Rightarrow> 'b \<Rightarrow> (av_in, int batched) world \<Rightarrow> stats \<times> (av_in, int batched) world" where
  "av_train_step fw c tv opt \<equiv>
     (\<lambda>dat w. train fw c opt (tv dat (opt_cuda opt) (opt_device opt) False) w)"

abbreviation av_test_step ::
  "(av_in, int batched) framework \<Rightarrow> loss_kind \<Rightarrow> ('b \<Rightarrow> bool \<Rightarrow> string \<Rightarrow> bool \<Rightarrow> av_batch) \<Rightarrow> opt
     \<Rightarrow> 'b \<Rightarrow> (av_in, int batched) world \<Rightarrow> stats \<times> (av_in, int batched) world" where
  "av_test_step fw c tv opt \<equiv>
     (\<lambda>dat w. test fw c opt (tv dat (opt_cuda opt) (opt_device opt) True) w)"

text \<open>
  The network \<^verbatim>\<open>benchmark\<close> builds, and the values of its output for a batch of a loader.
\<close>

definition benchmark_net :: "(av_in, int batched) framework \<Rightarrow> opt \<Rightarrow> (av_in, int batched) world" where
  "benchmark_net fw opt = model_cuda (load_or_init_models fw opt (new_model fw (CrNN 130 10 1)))"

definition bench_output ::
  "(av_in, int batched) framework \<Rightarrow> ('b \<Rightarrow> bool \<Rightarrow> string \<Rightarrow> bool \<Rightarrow> av_batch) \<Rightarrow> opt
     \<Rightarrow> (av_in, int batched) world \<Rightarrow> 'b \<Rightarrow> real list" where
  "bench_output fw tv opt w dat =
     data (fw_forward fw (params w) (training w) (av_input (tv dat (opt_cuda opt) (opt_device opt) True)))"

subsection \<open>A small instance\<close>

text \<open>
  A toy framework, options and loaders, to run the model on: the network adds the sum
  of its parameters to every value of its input, the optimizer subtracts the gradients.
\<close>

definition fw0 :: "(audio_in, tensor) framework" where
  "fw0 =
     \<lparr>fw_model = (\<lambda>a. [1, 2]),
      fw_load = (\<lambda>path. [3, 4]),
      fw_forward = (\<lambda>p m x. \<lparr>device = device (fst x), data = map (\<lambda>y. y + sum_list p) (data (fst x))\<rparr>),
      fw_criterion = (\<lambda>k out l. sum_list (data out) - sum_list (data l)),
      fw_backward = (\<lambda>p x l g. map (\<lambda>y. y + 1) g),
      fw_adam = (\<lambda>lr b p. map (\<lambda>y. 0) p),
      fw_step = (\<lambda>p g s. (map2 (\<lambda>a b. a - b) p g, map (\<lambda>y. y + 1) s)),
      fw_accuracy = (\<lambda>l out. if device l = device out then 1 / 2 else 0)\<rparr>"

definition fw1 :: "(av_in, int batched) framework" where
  "fw1 =
     \<lparr>fw_model = (\<lambda>a. [1, 2]),
      fw_load = (\<lambda>path. [3, 4]),
      fw_forward = (\<lambda>p m x. \<lparr>device = device (fst x), data = [sum_list (data (fst x)) + sum_list (data (snd x)) + sum_list p]\<rparr>),
      fw_criterion = (\<lambda>k out l. sum_list (data out) - of_int (index0 l)),
      fw_backward = (\<lambda>p x l g. map (\<lambda>y. y + 1) g),
      fw_adam = (\<lambda>lr b p. map (\<lambda>y. 0) p),
      fw_step = (\<lambda>p g s. (map2 (\<lambda>a b. a - b) p g, map (\<lambda>y. y + 1) s)),
      fw_accuracy = (\<lambda>l out. 0)\<rparr>"

definition opt0 :: opt where
  "opt0 =
     \<lparr>opt_epoch = 0, opt_n_epochs = 3, opt_checkpoint_interval = 2, opt_cuda = True,
      opt_benchmark = False, opt_net = [], opt_device = ''cuda'', opt_lr = 1 / 1000,
      opt_b1 = 1 / 2, opt_b2 = 999 / 1000, opt_checkpoint_dir = ''ckpt'', opt_name = ''crnn''\<rparr>"

definition cpu :: "real list \<Rightarrow> tensor" where
  "cpu xs = \<lparr>device = CPU, data = xs\<rparr>"

definition batch_a :: audio_batch where
  "batch_a = (cpu [1, 2], cpu [1, 0], [2])"

definition batch_b :: audio_batch where
  "batch_b = (cpu [3], cpu [0, 1], [1])"

definition loaders0 :: "opt \<Rightarrow> int option \<Rightarrow> audio_batch list \<times> audio_batch list" where
  "loaders0 opt ty = ([batch_a, batch_b], [batch_b])"

definition batch_c :: av_batch where
  "batch_c = (Batch (cpu [1]) [], Batch (cpu [2, 3]) [], Batch 1 [])"

definition batch_d :: av_batch where
  "batch_d = (Batch (cpu [0]) [], Batch (cpu [1 / 2]) [], Batch 0 [])"

definition loaders1 :: "opt \<Rightarrow> int option \<Rightarrow> av_batch list \<times> av_batch list" where
  "loaders1 opt ty = ([batch_c, batch_d], [batch_d])"

text \<open>A \<^verbatim>\<open>to_variables\<close> that moves the tensors of a batch when \<^verbatim>\<open>cuda\<close> is set.\<close>

fun to_variables0 :: "av_batch \<Rightarrow> bool \<Rightarrow> string \<Rightarrow> bool \<Rightarrow> av_batch" where
  "to_variables0 (Batch f fs, Batch v vs, l) c dev t =
     (if c then (Batch (cuda f) (map cuda fs), Batch (cuda v) (map cuda vs), l)
      else (Batch f fs, Batch v vs, l))"

text \<open>The toy networks as their constructors leave them.\<close>

definition net0 :: "(audio_in, tensor) world" where
  "net0 = new_model fw0 (CrNN_audio 1 10 2)"

definition net1 :: "(av_in, int batched) world" where
  "net1 = new_model fw1 (CrNN 130 10 1)"

text \<open>The audio network with gradients and optimizer state left by an earlier batch.\<close>

definition net0' :: "(audio_in, tensor) world" where
  "net0' = net0\<lparr>grads := [5, 7], opt_state := [3]\<rparr>"

text \<open>A batch whose output is a tie for \<^verbatim>\<open>np.round\<close>, and loaders with it.\<close>

definition batch_c' :: av_batch where
  "batch_c' = (Batch (cpu [0]) [], Batch (cpu [- 1 / 2]) [], Batch 0 [])"

definition loaders2 :: "opt \<Rightarrow> int option \<Rightarrow> av_batch list \<times> av_batch list" where
  "loaders2 opt ty = ([batch_c, batch_c'], [batch_d])"

section \<open>Lemmas\<close>

subsection \<open>One batch\<close>

lemmas prims = net_train_def net_eval_def zero_grad_def backward_def optimizer_step_def
  net_call_def criterion_call_def move_if_cuda_def emit_def

lemma train_audio_trace:
  "trace (snd (train_audio fw c opt (v, l, n) w)) =
     trace w @ map (Pair (cur_epoch w))
       ([Net_train, Zero_grad] @ (if opt_cuda opt then [Tensor_cuda v, Tensor_cuda l] else []) @
        [Net_call True (tensor_mul (if opt_cuda opt then cuda v else v) 100, n),
         Criterion_call (fw_forward fw (params w) True (tensor_mul (if opt_cuda opt then cuda v else v) 100, n))
            (if opt_cuda opt then cuda l else l),
         Backward, Optimizer_step])"
  by (simp add: train_audio_def prims Let_def split: prod.splits)

lemma test_audio_trace:
  "trace (snd (test_audio fw c opt (v, l, n) w)) =
     trace w @ map (Pair (cur_epoch w))
       ([Net_eval] @ (if opt_cuda opt then [Tensor_cuda v, Tensor_cuda l] else []) @
        [Net_call False (if opt_cuda opt then cuda v else v, n),
         Criterion_call (fw_forward fw (params w) False (if opt_cuda opt then cuda v else v, n))
            (if opt_cuda opt then cuda l else l)])"
  by (simp add: test_audio_def prims Let_def split: prod.splits)

lemma test_audio_frame:
  "params (snd (test_audio fw c opt dat w)) = params w"
  "opt_state (snd (test_audio fw c opt dat w)) = opt_state w"
  "grads (snd (test_audio fw c opt dat w)) = grads w"
  "cur_epoch (snd (test_audio fw c opt dat w)) = cur_epoch w"
  "net_device (snd (test_audio fw c opt dat w)) = net_device w"
  "grad_enabled (snd (test_audio fw c opt dat w)) = grad_enabled w"
  by (simp_all add: test_audio_def prims Let_def split: prod.splits)

lemma train_trace:
  "trace (snd (train fw c opt (fr, vo, l) w)) =
     trace w @ map (Pair (cur_epoch w))
        [Net_train, Zero_grad, Net_call True (index0 fr, index0 vo),
         Criterion_call (fw_forward fw (params w) True (index0 fr, index0 vo)) l,
         Backward, Optimizer_step]"
  by (simp add: train_def prims Let_def split: prod.splits)

lemma test_trace:
  "trace (snd (test fw c opt (fr, vo, l) w)) =
     trace w @ map (Pair (cur_epoch w))
        [Net_eval, Net_call False (index0 fr, index0 vo),
         Criterion_call (fw_forward fw (params w) False (index0 fr, index0 vo)) l]"
  by (simp add: test_def prims Let_def split: prod.splits)

lemma train_audio_epoch: "cur_epoch (snd (train_audio fw c opt dat w)) = cur_epoch w"
  by (simp add: train_audio_def prims Let_def split: prod.splits)

lemma train_epoch: "cur_epoch (snd (train fw c opt dat w)) = cur_epoch w"
  by (simp add: train_def prims Let_def split: prod.splits)

lemma test_epoch: "cur_epoch (snd (test fw c opt dat w)) = cur_epoch w"
  by (simp add: test_def prims Let_def split: prod.splits)

lemma snd_audio_train_step: "snd (audio_train_step fw c opt d w) = snd (train_audio fw c opt d w)"
  by (simp split: prod.splits)

lemma snd_audio_test_step: "snd (audio_test_step fw c opt d w) = snd (test_audio fw c opt d w)"
  by (simp split: prod.splits)

subsection \<open>Logs and their views\<close>

lemma proj_simps [simp]:
  "proj sel [] = []"
  "proj sel (x # xs) = sel x @ proj sel xs"
  "proj sel (xs @ ys) = proj sel xs @ proj sel ys"
  by (simp_all add: proj_def)

lemma concat_map_Nil [simp]: "concat (map (\<lambda>d. []) xs) = []"
  by (induction xs) simp_all

lemma emits_simps [simp]:
  "params (emits evs w) = params w"
  "net_device (emits evs w) = net_device w"
  "training (emits evs w) = training w"
  "grad_enabled (emits evs w) = grad_enabled w"
  "grads (emits evs w) = grads w"
  "opt_state (emits evs w) = opt_state w"
  "cur_epoch (emits evs w) = cur_epoch w"
  "trace (emits evs w) = trace w @ map (Pair (cur_epoch w)) evs"
  by (simp_all add: emits_def)

lemma emits_Nil [simp]: "emits [] w = w"
  by (simp add: emits_def)

lemma emits_emits [simp]: "emits ys (emits xs w) = emits (xs @ ys) w"
  by (simp add: emits_def)

lemma emit_emits: "emit ev w = emits [ev] w"
  by (simp add: emit_def emits_def)

lemma emits_upd [simp]:
  "emits evs (w\<lparr>grad_enabled := b\<rparr>) = (emits evs w)\<lparr>grad_enabled := b\<rparr>"
  by (simp add: emits_def)

lemma setup_trace:
  "trace (adam fw opt (model_cuda (load_or_init_models fw opt (new_model fw a)))) =
     map (Pair None)
       ((if opt_net opt \<noteq> [] then [Load_state_dict (opt_net opt)] else []) @
        (if opt_cuda opt then [Net_cuda] else []) @ [Net_cuda])"
  by (simp add: adam_def model_cuda_def load_or_init_models_def new_model_def emit_def Let_def)

subsection \<open>The logging blocks never divide by zero\<close>

lemma log_items_ok:
  "kvs = [] \<or> n \<noteq> 0 \<Longrightarrow>
   log_items wr e n kvs (avg, out, w) =
     Inr (if kvs = [] then avg else Some (snd (last kvs) / real n),
          out @ map (\<lambda>(k, v). (k, v / real n)) kvs,
          emits (map (\<lambda>(k, v). Add_scalar wr k (v / real n) e) kvs) w)"
proof (induction kvs arbitrary: avg out w)
  case Nil
  then show ?case by simp
next
  case (Cons kv kvs)
  obtain k v where kv: "kv = (k, v)" by (cases kv)
  from Cons.prems have n: "n \<noteq> 0" by simp
  then have "kvs = [] \<or> n \<noteq> 0" by simp
  note IH = Cons.IH [OF this]
  show ?case
    by (simp add: kv n py_truediv_def IH emit_emits)
qed

lemma log_progress_ok:
  "st = [] \<or> n \<noteq> 0 \<Longrightarrow>
   log_progress tag wr opt e n st (avg, w) =
     Inr (if st = [] then avg else Some (snd (last st) / real n), emits (log_calls tag wr opt e n st) w)"
  by (simp add: log_progress_def log_items_ok log_calls_def emit_emits)

lemma checkpoint_cases:
  "checkpoint opt e (Some a, w) =
     (if opt_checkpoint_interval opt = 0 then Inl (ZeroDivisionError, w)
      else if e mod opt_checkpoint_interval opt = 0 then Inr (Some a, emits [Save_if_best a] w)
      else Inr (Some a, w))"
  by (simp add: checkpoint_def py_mod_def emit_emits)

subsection \<open>One epoch, in one equation\<close>

lemma epoch_body_nf:
  "epoch_body opt trs trl tes tel e (avg, w) =
     (case pass trs trl ([], w\<lparr>cur_epoch := Some e\<rparr>) of (st1, w1) \<Rightarrow>
        let w2 = emits (log_calls ''train'' Train_writer opt e (length trl) st1) w1 in
        case pass tes tel ([], w2\<lparr>grad_enabled := False\<rparr>) of (st2, w3) \<Rightarrow>
          checkpoint opt e
            (Some (last_avg st2 (length tel)),
             emits (log_calls ''test'' Test_writer opt e (length tel) st2)
               (w3\<lparr>grad_enabled := grad_enabled w2\<rparr>)))"
proof -
  obtain st1 w1 where p1: "pass trs trl ([], w\<lparr>cur_epoch := Some e\<rparr>) = (st1, w1)"
    by (cases "pass trs trl ([], w\<lparr>cur_epoch := Some e\<rparr>)")
  have ok1: "st1 = [] \<or> length trl \<noteq> 0"
    using p1 by (cases trl) auto
  define w2 where "w2 = emits (log_calls ''train'' Train_writer opt e (length trl) st1) w1"
  obtain st2 w3 where p2: "pass tes tel ([], w2\<lparr>grad_enabled := False\<rparr>) = (st2, w3)"
    by (cases "pass tes tel ([], w2\<lparr>grad_enabled := False\<rparr>)")
  have ok2: "st2 = [] \<or> length tel \<noteq> 0"
    using p2 by (cases tel) auto
  show ?thesis
    unfolding epoch_body_def
    by (simp add: p1 log_progress_ok [OF ok1] w2_def [symmetric] no_grad_def p2
        log_progress_ok [OF ok2] last_avg_def Let_def)
qed

subsection \<open>What a pass, an epoch and a run log\<close>

lemma pass_proj:
  assumes ep: "\<And>d w. cur_epoch (snd (step d w)) = cur_epoch w"
      and tr: "\<And>d w. proj sel (trace (snd (step d w))) = proj sel (trace w) @ g (cur_epoch w) d"
  shows "cur_epoch (snd (pass step ds (s, w))) = cur_epoch w \<and>
         proj sel (trace (snd (pass step ds (s, w)))) =
           proj sel (trace w) @ concat (map (g (cur_epoch w)) ds)"
proof (induction ds arbitrary: s w)
  case Nil
  then show ?case by simp
next
  case (Cons d ds)
  obtain loss w' where st: "step d w = (loss, w')" by (cases "step d w")
  have e': "cur_epoch w' = cur_epoch w" using ep [of d w] st by simp
  have t': "proj sel (trace w') = proj sel (trace w) @ g (cur_epoch w) d"
    using tr [of d w] st by simp
  show ?case
    using Cons.IH [of "update_stats s loss" w'] by (simp add: st e' t')
qed

lemma epoch_body_view:
  assumes ep1: "\<And>d w. cur_epoch (snd (trs d w)) = cur_epoch w"
      and tr1: "\<And>d w. proj sel (trace (snd (trs d w))) = proj sel (trace w) @ g1 (cur_epoch w) d"
      and ep2: "\<And>d w. cur_epoch (snd (tes d w)) = cur_epoch w"
      and tr2: "\<And>d w. proj sel (trace (snd (tes d w))) = proj sel (trace w) @ g2 (cur_epoch w) d"
  shows "proj sel (trace (final_world (epoch_body opt trs trl tes tel e (avg, w)))) =
           proj sel (trace w) @ concat (map (g1 (Some e)) trl) @
           proj sel (map (Pair (Some e)) (log_calls ''train'' Train_writer opt e (length trl) (train_stats trs trl e w))) @
           concat (map (g2 (Some e)) tel) @
           proj sel (map (Pair (Some e))
              (log_calls ''test'' Test_writer opt e (length tel) (test_stats opt trs trl tes tel e w))) @
           (if py_mod e (opt_checkpoint_interval opt) = Inr 0
            then sel (Some e, Save_if_best (last_avg (test_stats opt trs trl tes tel e w) (length tel)))
            else [])"
proof -
  let ?w0 = "w\<lparr>cur_epoch := Some e\<rparr>"
  obtain st1 w1 where p1: "pass trs trl ([], ?w0) = (st1, w1)"
    by (cases "pass trs trl ([], ?w0)")
  have a1: "cur_epoch w1 = Some e"
    and b1: "proj sel (trace w1) = proj sel (trace w) @ concat (map (g1 (Some e)) trl)"
    using pass_proj [of trs sel g1 trl "[]" ?w0, OF ep1 tr1] p1 by simp_all
  define w2 where "w2 = emits (log_calls ''train'' Train_writer opt e (length trl) st1) w1"
  let ?w2' = "w2\<lparr>grad_enabled := False\<rparr>"
  obtain st2 w3 where p2: "pass tes tel ([], ?w2') = (st2, w3)"
    by (cases "pass tes tel ([], ?w2')")
  have s1: "train_stats trs trl e w = st1"
    by (simp add: train_stats_def p1)
  have s2: "test_stats opt trs trl tes tel e w = st2"
    by (simp add: test_stats_def after_train_log_def p1 p2 [unfolded w2_def])
  have a2: "cur_epoch w2 = Some e"
    and b2: "proj sel (trace w2) =
               proj sel (trace w) @ concat (map (g1 (Some e)) trl) @
               proj sel (map (Pair (Some e)) (log_calls ''train'' Train_writer opt e (length trl) st1))"
    unfolding w2_def by (simp_all add: a1 b1)
  have a3: "cur_epoch w3 = Some e"
    and b3: "proj sel (trace w3) = proj sel (trace w2) @ concat (map (g2 (Some e)) tel)"
    using pass_proj [of tes sel g2 tel "[]" ?w2', OF ep2 tr2] p2 a2 by simp_all
  define w4 where
    "w4 = emits (log_calls ''test'' Test_writer opt e (length tel) st2) (w3\<lparr>grad_enabled := grad_enabled w2\<rparr>)"
  have a4: "cur_epoch w4 = Some e"
    and b4: "proj sel (trace w4) =
               proj sel (trace w2) @ concat (map (g2 (Some e)) tel) @
               proj sel (map (Pair (Some e)) (log_calls ''test'' Test_writer opt e (length tel) st2))"
    unfolding w4_def by (simp_all add: a3 b3)
  have nf: "epoch_body opt trs trl tes tel e (avg, w) =
              checkpoint opt e (Some (last_avg st2 (length tel)), w4)"
    unfolding w4_def w2_def by (simp add: epoch_body_nf p1 p2 [unfolded w2_def] Let_def)
  show ?thesis
    unfolding nf checkpoint_cases s1 s2
    by (cases "opt_checkpoint_interval opt = 0"; cases "e mod opt_checkpoint_interval opt = 0")
       (auto simp: py_mod_def final_world_def a4 b4 b2)
qed

lemma epoch_body_result:
  "epoch_body opt trs trl tes tel e (avg, w) =
     (if opt_checkpoint_interval opt = 0
      then Inl (ZeroDivisionError, final_world (epoch_body opt trs trl tes tel e (avg, w)))
      else Inr (Some (last_avg (test_stats opt trs trl tes tel e w) (length tel)),
                final_world (epoch_body opt trs trl tes tel e (avg, w))))"
proof -
  obtain st1 w1 where p1: "pass trs trl ([], w\<lparr>cur_epoch := Some e\<rparr>) = (st1, w1)"
    by (cases "pass trs trl ([], w\<lparr>cur_epoch := Some e\<rparr>)")
  define w2 where "w2 = (emits (log_calls ''train'' Train_writer opt e (length trl) st1) w1)\<lparr>grad_enabled := False\<rparr>"
  obtain st2 w3 where p2: "pass tes tel ([], w2) = (st2, w3)"
    by (cases "pass tes tel ([], w2)")
  have s2: "test_stats opt trs trl tes tel e w = st2"
    by (simp add: test_stats_def after_train_log_def p1 p2 [unfolded w2_def])
  show ?thesis
    unfolding s2
    by (simp add: epoch_body_nf p1 p2 [unfolded w2_def] Let_def checkpoint_cases final_world_def)
qed

lemma epoch_body_proj:
  assumes ep1: "\<And>d w. cur_epoch (snd (trs d w)) = cur_epoch w"
      and tr1: "\<And>d w. proj sel (trace (snd (trs d w))) = proj sel (trace w) @ g1 (cur_epoch w) d"
      and ep2: "\<And>d w. cur_epoch (snd (tes d w)) = cur_epoch w"
      and tr2: "\<And>d w. proj sel (trace (snd (tes d w))) = proj sel (trace w) @ g2 (cur_epoch w) d"
      and sc: "\<And>ep wr k a e. sel (ep, Add_scalar wr k a e) = []"
      and pr: "\<And>ep tag e n kvs. sel (ep, Print tag e n kvs) = prt ep tag e"
      and sv: "\<And>ep a. sel (ep, Save_if_best a) = sav ep"
  shows "\<exists>a w'.
           epoch_body opt trs trl tes tel e (avg, w) =
             (if opt_checkpoint_interval opt = 0 then Inl (ZeroDivisionError, w') else Inr (Some a, w')) \<and>
           proj sel (trace w') =
             proj sel (trace w) @ concat (map (g1 (Some e)) trl) @ prt (Some e) ''train'' e @
             concat (map (g2 (Some e)) tel) @ prt (Some e) ''test'' e @
             (if py_mod e (opt_checkpoint_interval opt) = Inr 0 then sav (Some e) else [])"
proof -
  have lg: "proj sel (map (Pair ep) (log_calls tag wr opt e n st)) = prt ep tag e" for ep tag wr n st
    by (induction st) (auto simp: log_calls_def sc pr)
  have "proj sel (trace (final_world (epoch_body opt trs trl tes tel e (avg, w)))) =
          proj sel (trace w) @ concat (map (g1 (Some e)) trl) @ prt (Some e) ''train'' e @
          concat (map (g2 (Some e)) tel) @ prt (Some e) ''test'' e @
          (if py_mod e (opt_checkpoint_interval opt) = Inr 0 then sav (Some e) else [])"
    using epoch_body_view [of trs sel g1 tes g2 opt trl tel e avg w, OF ep1 tr1 ep2 tr2]
    by (simp add: lg sv)
  with epoch_body_result [of opt trs trl tes tel e avg w] show ?thesis
    by blast
qed

lemma epochs_loop_proj:
  assumes ep1: "\<And>d w. cur_epoch (snd (trs d w)) = cur_epoch w"
      and tr1: "\<And>d w. proj sel (trace (snd (trs d w))) = proj sel (trace w) @ g1 (cur_epoch w) d"
      and ep2: "\<And>d w. cur_epoch (snd (tes d w)) = cur_epoch w"
      and tr2: "\<And>d w. proj sel (trace (snd (tes d w))) = proj sel (trace w) @ g2 (cur_epoch w) d"
      and sc: "\<And>ep wr k a e. sel (ep, Add_scalar wr k a e) = []"
      and pr: "\<And>ep tag e n kvs. sel (ep, Print tag e n kvs) = prt ep tag e"
      and sv: "\<And>ep a. sel (ep, Save_if_best a) = sav ep"
      and ci: "opt_checkpoint_interval opt \<noteq> 0"
  shows "\<exists>a w'.
           epochs_loop (epoch_body opt trs trl tes tel) es (avg, w) = Inr (a, w') \<and>
           proj sel (trace w') =
             proj sel (trace w) @
             concat (map (\<lambda>e. concat (map (g1 (Some e)) trl) @ prt (Some e) ''train'' e @
                              concat (map (g2 (Some e)) tel) @ prt (Some e) ''test'' e @
                              (if e mod opt_checkpoint_interval opt = 0 then sav (Some e) else [])) es)"
proof (induction es arbitrary: avg w)
  case Nil
  then show ?case by simp
next
  case (Cons e es)
  from epoch_body_proj [of trs sel g1 tes g2 prt sav opt trl tel e avg w, OF ep1 tr1 ep2 tr2 sc pr sv]
  obtain a w1 where
    b: "epoch_body opt trs trl tes tel e (avg, w) = Inr (Some a, w1)" and
    t: "proj sel (trace w1) =
         proj sel (trace w) @ concat (map (g1 (Some e)) trl) @ prt (Some e) ''train'' e @
         concat (map (g2 (Some e)) tel) @ prt (Some e) ''test'' e @
         (if e mod opt_checkpoint_interval opt = 0 then sav (Some e) else [])"
    using ci by (auto simp: py_mod_def)
  from Cons.IH [of "Some a" w1] obtain a' w' where
    l: "epochs_loop (epoch_body opt trs trl tes tel) es (Some a, w1) = Inr (a', w')" and
    t': "proj sel (trace w') = proj sel (trace w1) @
          concat (map (\<lambda>e. concat (map (g1 (Some e)) trl) @ prt (Some e) ''train'' e @
                              concat (map (g2 (Some e)) tel) @ prt (Some e) ''test'' e @
                              (if e mod opt_checkpoint_interval opt = 0 then sav (Some e) else [])) es)"
    by blast
  show ?case
    by (simp add: b l t' t)
qed

lemma epochs_loop_zero:
  assumes ep1: "\<And>d w. cur_epoch (snd (trs d w)) = cur_epoch w"
      and tr1: "\<And>d w. proj sel (trace (snd (trs d w))) = proj sel (trace w) @ g1 (cur_epoch w) d"
      and ep2: "\<And>d w. cur_epoch (snd (tes d w)) = cur_epoch w"
      and tr2: "\<And>d w. proj sel (trace (snd (tes d w))) = proj sel (trace w) @ g2 (cur_epoch w) d"
      and sc: "\<And>ep wr k a e. sel (ep, Add_scalar wr k a e) = []"
      and pr: "\<And>ep tag e n kvs. sel (ep, Print tag e n kvs) = prt ep tag e"
      and sv: "\<And>ep a. sel (ep, Save_if_best a) = sav ep"
      and ci: "opt_checkpoint_interval opt = 0"
  shows "\<exists>w'.
           epochs_loop (epoch_body opt trs trl tes tel) (e # es) (avg, w) = Inl (ZeroDivisionError, w') \<and>
           proj sel (trace w') =
             proj sel (trace w) @ concat (map (g1 (Some e)) trl) @ prt (Some e) ''train'' e @
                              concat (map (g2 (Some e)) tel) @ prt (Some e) ''test'' e"
  using epoch_body_proj [of trs sel g1 tes g2 prt sav opt trl tel e avg w, OF ep1 tr1 ep2 tr2 sc pr sv] ci
  by (auto simp: py_mod_def)

subsection \<open>Printed lines and saves of a run\<close>

lemma train_audio_marks:
  "proj sel_mark (trace (snd (train_audio fw c opt d w))) = proj sel_mark (trace w) @ []"
  by (cases d) (simp add: train_audio_trace)

lemma test_audio_marks:
  "proj sel_mark (trace (snd (test_audio fw c opt d w))) = proj sel_mark (trace w) @ []"
  by (cases d) (simp add: test_audio_trace)

lemma train_marks:
  "proj sel_mark (trace (snd (train fw c opt d w))) = proj sel_mark (trace w) @ []"
  by (cases d) (simp add: train_trace)

lemma test_marks:
  "proj sel_mark (trace (snd (test fw c opt d w))) = proj sel_mark (trace w) @ []"
  by (cases d) (simp add: test_trace)

lemma sel_mark_plain:
  "sel_mark (ep, Add_scalar wr k a e) = []"
  "sel_mark (ep, Print tag e n kvs) = [(ep, Logged tag)]"
  "sel_mark (ep, Save_if_best a) = [(ep, Saved)]"
  by simp_all

subsection \<open>The calls of one batch, and what a test pass leaves alone\<close>

lemma new_calls_append: "trace w' = trace w @ map (Pair ep) evs \<Longrightarrow> new_calls w w' = evs"
  by (simp add: new_calls_def comp_def)

lemma train_audio_calls:
  "new_calls w (snd (train_audio fw c opt (v, l, n) w)) =
     [Net_train, Zero_grad] @ (if opt_cuda opt then [Tensor_cuda v, Tensor_cuda l] else []) @
     [Net_call True (tensor_mul (if opt_cuda opt then cuda v else v) 100, n),
      Criterion_call (fw_forward fw (params w) True (tensor_mul (if opt_cuda opt then cuda v else v) 100, n))
         (if opt_cuda opt then cuda l else l),
      Backward, Optimizer_step]"
  by (rule new_calls_append [OF train_audio_trace])

lemma test_audio_calls:
  "new_calls w (snd (test_audio fw c opt (v, l, n) w)) =
     [Net_eval] @ (if opt_cuda opt then [Tensor_cuda v, Tensor_cuda l] else []) @
     [Net_call False (if opt_cuda opt then cuda v else v, n),
      Criterion_call (fw_forward fw (params w) False (if opt_cuda opt then cuda v else v, n))
         (if opt_cuda opt then cuda l else l)]"
  by (rule new_calls_append [OF test_audio_trace])

lemma train_calls:
  "new_calls w (snd (train fw c opt (fr, vo, l) w)) =
     [Net_train, Zero_grad, Net_call True (index0 fr, index0 vo),
      Criterion_call (fw_forward fw (params w) True (index0 fr, index0 vo)) l,
      Backward, Optimizer_step]"
  by (rule new_calls_append [OF train_trace])

text \<open>What one training batch leaves in the network, the optimizer and the result.\<close>

lemma train_audio_state:
  "training (snd (train_audio fw c opt (v, l, n) w)) = True"
  "grads (snd (train_audio fw c opt (v, l, n) w)) =
     fw_backward fw (params w) (audio_train_input opt (v, l, n)) (if opt_cuda opt then cuda l else l)
       (map (\<lambda>g. 0) (grads w))"
  "params (snd (train_audio fw c opt (v, l, n) w)) =
     fst (fw_step fw (params w)
            (fw_backward fw (params w) (audio_train_input opt (v, l, n)) (if opt_cuda opt then cuda l else l)
               (map (\<lambda>g. 0) (grads w)))
            (opt_state w))"
  "opt_state (snd (train_audio fw c opt (v, l, n) w)) =
     snd (fw_step fw (params w)
            (fw_backward fw (params w) (audio_train_input opt (v, l, n)) (if opt_cuda opt then cuda l else l)
               (map (\<lambda>g. 0) (grads w)))
            (opt_state w))"
  "fst (train_audio fw c opt (v, l, n) w) =
     ([(''train loss'',
        fw_criterion fw c (fw_forward fw (params w) True (audio_train_input opt (v, l, n)))
          (if opt_cuda opt then cuda l else l)),
       (''accuracy'',
        fw_accuracy fw (if opt_cuda opt then cuda l else l)
          (fw_forward fw (params w) True (audio_train_input opt (v, l, n))))],
      fw_forward fw (params w) True (audio_train_input opt (v, l, n)))"
  by (simp_all add: train_audio_def prims Let_def split: prod.splits)

lemma train_state:
  "training (snd (train fw c opt (fr, vo, l) w)) = True"
  "grads (snd (train fw c opt (fr, vo, l) w)) =
     fw_backward fw (params w) (av_input (fr, vo, l)) l (map (\<lambda>g. 0) (grads w))"
  "params (snd (train fw c opt (fr, vo, l) w)) =
     fst (fw_step fw (params w)
            (fw_backward fw (params w) (av_input (fr, vo, l)) l (map (\<lambda>g. 0) (grads w)))
            (opt_state w))"
  "opt_state (snd (train fw c opt (fr, vo, l) w)) =
     snd (fw_step fw (params w)
            (fw_backward fw (params w) (av_input (fr, vo, l)) l (map (\<lambda>g. 0) (grads w)))
            (opt_state w))"
  "fst (train fw c opt (fr, vo, l) w) =
     [(''train loss'', fw_criterion fw c (fw_forward fw (params w) True (av_input (fr, vo, l))) l)]"
  by (simp_all add: train_def prims Let_def split: prod.splits)

lemma sel_call_new:
  "trace w' = trace w @ map (Pair ep) evs \<Longrightarrow> proj sel_call (new_calls w w') = proj sel_call evs"
  by (simp add: new_calls_append)

lemma pass_frame:
  assumes "\<And>d w. params (snd (step d w)) = params w"
      and "\<And>d w. opt_state (snd (step d w)) = opt_state w"
      and "\<And>d w. grads (snd (step d w)) = grads w"
  shows "params (snd (pass step ds (s, w))) = params w \<and>
         opt_state (snd (pass step ds (s, w))) = opt_state w \<and>
         grads (snd (pass step ds (s, w))) = grads w"
proof (induction ds arbitrary: s w)
  case Nil
  then show ?case by simp
next
  case (Cons d ds)
  obtain loss w' where st: "step d w = (loss, w')" by (cases "step d w")
  have "params w' = params w" "opt_state w' = opt_state w" "grads w' = grads w"
    using assms(1) [of d w] assms(2) [of d w] assms(3) [of d w] st by simp_all
  then show ?case
    using Cons.IH [of "update_stats s loss" w'] by (simp add: st)
qed

lemma test_frame:
  "params (snd (test fw c opt dat w)) = params w"
  "opt_state (snd (test fw c opt dat w)) = opt_state w"
  "grads (snd (test fw c opt dat w)) = grads w"
  by (simp_all add: test_def prims Let_def split: prod.splits)

lemma checkpoint_frame:
  "params (final_world (checkpoint opt e (Some a, w))) = params w"
  "opt_state (final_world (checkpoint opt e (Some a, w))) = opt_state w"
  "grads (final_world (checkpoint opt e (Some a, w))) = grads w"
  by (simp_all add: checkpoint_cases final_world_def)

lemma epoch_body_frame:
  assumes "\<And>d w. params (snd (tes d w)) = params w"
      and "\<And>d w. opt_state (snd (tes d w)) = opt_state w"
      and "\<And>d w. grads (snd (tes d w)) = grads w"
  shows "params (final_world (epoch_body opt trs trl tes tel e (avg, w))) =
           params (snd (pass trs trl ([], w\<lparr>cur_epoch := Some e\<rparr>))) \<and>
         opt_state (final_world (epoch_body opt trs trl tes tel e (avg, w))) =
           opt_state (snd (pass trs trl ([], w\<lparr>cur_epoch := Some e\<rparr>))) \<and>
         grads (final_world (epoch_body opt trs trl tes tel e (avg, w))) =
           grads (snd (pass trs trl ([], w\<lparr>cur_epoch := Some e\<rparr>)))"
proof -
  obtain st1 w1 where p1: "pass trs trl ([], w\<lparr>cur_epoch := Some e\<rparr>) = (st1, w1)"
    by (cases "pass trs trl ([], w\<lparr>cur_epoch := Some e\<rparr>)")
  define w2 where "w2 = (emits (log_calls ''train'' Train_writer opt e (length trl) st1) w1)\<lparr>grad_enabled := False\<rparr>"
  obtain st2 w3 where p2: "pass tes tel ([], w2) = (st2, w3)"
    by (cases "pass tes tel ([], w2)")
  have f: "params w3 = params w1" "opt_state w3 = opt_state w1" "grads w3 = grads w1"
    using pass_frame [of tes tel "[]" w2, OF assms] p2 by (simp_all add: w2_def)
  show ?thesis
    by (simp add: epoch_body_nf p1 p2 [unfolded w2_def] Let_def checkpoint_frame f)
qed

subsection \<open>The epochs of a run\<close>

lemma loop_final:
  assumes ep1: "\<And>d w. cur_epoch (snd (trs d w)) = cur_epoch w"
      and tr1: "\<And>d w. proj sel (trace (snd (trs d w))) = proj sel (trace w) @ g1 (cur_epoch w) d"
      and ep2: "\<And>d w. cur_epoch (snd (tes d w)) = cur_epoch w"
      and tr2: "\<And>d w. proj sel (trace (snd (tes d w))) = proj sel (trace w) @ g2 (cur_epoch w) d"
      and sc: "\<And>ep wr k a e. sel (ep, Add_scalar wr k a e) = []"
      and pr: "\<And>ep tag e n kvs. sel (ep, Print tag e n kvs) = prt ep tag e"
      and sv: "\<And>ep a. sel (ep, Save_if_best a) = sav ep"
  shows "proj sel
           (trace (final_world (epochs_loop (epoch_body opt trs trl tes tel)
              (py_range (opt_epoch opt) (opt_n_epochs opt)) (avg, w)))) =
         proj sel (trace w) @
         concat (map (\<lambda>e. concat (map (g1 (Some e)) trl) @ prt (Some e) ''train'' e @
                            concat (map (g2 (Some e)) tel) @ prt (Some e) ''test'' e @
                            (if py_mod e (opt_checkpoint_interval opt) = Inr 0 then sav (Some e) else []))
                   (epochs_run opt)) \<and>
         raised (epochs_loop (epoch_body opt trs trl tes tel)
              (py_range (opt_epoch opt) (opt_n_epochs opt)) (avg, w)) =
           (if opt_checkpoint_interval opt = 0 \<and> py_range (opt_epoch opt) (opt_n_epochs opt) \<noteq> []
            then Some ZeroDivisionError else None)"
proof (cases "opt_checkpoint_interval opt = 0")
  case False
  from epochs_loop_proj [of trs sel g1 tes g2 prt sav opt trl tel
      "py_range (opt_epoch opt) (opt_n_epochs opt)" avg w, OF ep1 tr1 ep2 tr2 sc pr sv False]
  show ?thesis
    using False by (auto simp: final_world_def raised_def epochs_run_def py_mod_def)
next
  case True
  show ?thesis
  proof (cases "py_range (opt_epoch opt) (opt_n_epochs opt)")
    case Nil
    then show ?thesis by (simp add: final_world_def raised_def epochs_run_def)
  next
    case (Cons e es)
    from epochs_loop_zero [of trs sel g1 tes g2 prt sav opt trl tel e es avg w,
      OF ep1 tr1 ep2 tr2 sc pr sv True]
    show ?thesis
      using True Cons by (auto simp: final_world_def raised_def epochs_run_def py_mod_def)
  qed
qed

lemma setup_proj:
  "(\<And>ev. sel (None, ev) = []) \<Longrightarrow>
   proj sel (trace (adam fw opt (model_cuda (load_or_init_models fw opt (new_model fw a))))) = []"
  by (simp add: setup_trace)

lemma train_audio_prints:
  "proj sel_print (trace (snd (train_audio fw c opt d w))) = proj sel_print (trace w) @ []"
  by (cases d) (simp add: train_audio_trace)

lemma test_audio_prints:
  "proj sel_print (trace (snd (test_audio fw c opt d w))) = proj sel_print (trace w) @ []"
  by (cases d) (simp add: test_audio_trace)

lemma train_prints:
  "proj sel_print (trace (snd (train fw c opt d w))) = proj sel_print (trace w) @ []"
  by (cases d) (simp add: train_trace)

lemma test_prints:
  "proj sel_print (trace (snd (test fw c opt d w))) = proj sel_print (trace w) @ []"
  by (cases d) (simp add: test_trace)

lemma train_audio_tcalls:
  "proj sel_train_call (trace (snd (train_audio fw c opt d w))) =
     proj sel_train_call (trace w) @ [(cur_epoch w, audio_train_input opt d)]"
  by (cases d) (simp add: train_audio_trace)

lemma test_audio_tcalls:
  "proj sel_train_call (trace (snd (test_audio fw c opt d w))) = proj sel_train_call (trace w) @ []"
  by (cases d) (simp add: test_audio_trace)

lemma train_tcalls:
  "proj sel_train_call (trace (snd (train fw c opt d w))) =
     proj sel_train_call (trace w) @ [(cur_epoch w, av_input d)]"
  by (cases d) (simp add: train_trace)

lemma test_tcalls:
  "proj sel_train_call (trace (snd (test fw c opt d w))) = proj sel_train_call (trace w) @ []"
  by (cases d) (simp add: test_trace)

lemma sel_print_plain:
  "sel_print (ep, Add_scalar wr k a e) = []"
  "sel_print (ep, Print tag e n kvs) = [(tag, e)]"
  "sel_print (ep, Save_if_best a) = []"
  by simp_all

lemma sel_train_call_plain:
  "sel_train_call (ep, Add_scalar wr k a e) = []"
  "sel_train_call (ep, Print tag e n kvs) = []"
  "sel_train_call (ep, Save_if_best a) = []"
  by simp_all

lemma run_audio_prints:
  "proj sel_print (trace (final_world (run_audio fw il opt))) =
     concat (map (\<lambda>e. [(''train'', e), (''test'', e)]) (epochs_run opt)) \<and>
   raised (run_audio fw il opt) =
     (if opt_checkpoint_interval opt = 0 \<and> py_range (opt_epoch opt) (opt_n_epochs opt) \<noteq> []
      then Some ZeroDivisionError else None)"
proof -
  obtain trl tel where il: "il opt (Some 1) = (trl, tel)" by (cases "il opt (Some 1)")
  have "proj sel_print (trace (adam fw opt (model_cuda (load_or_init_models fw opt (new_model fw (CrNN_audio 1 10 2)))))) = []"
    by (simp add: setup_trace)
  with loop_final [of "audio_train_step fw BCELoss opt" sel_print "\<lambda>ep d. []"
      "audio_test_step fw BCELoss opt" "\<lambda>ep d. []" "\<lambda>ep tag e. [(tag, e)]" "\<lambda>ep. []" opt trl tel None
      "adam fw opt (model_cuda (load_or_init_models fw opt (new_model fw (CrNN_audio 1 10 2))))"]
  show ?thesis
    unfolding run_audio_def il Let_def prod.case
    by (simp add: snd_audio_train_step snd_audio_test_step train_audio_epoch test_audio_frame
          train_audio_prints test_audio_prints)
qed

lemma run_prints:
  "proj sel_print (trace (final_world (run fw il tv opt))) =
     concat (map (\<lambda>e. [(''train'', e), (''test'', e)]) (epochs_run opt)) \<and>
   raised (run fw il tv opt) =
     (if opt_checkpoint_interval opt = 0 \<and> py_range (opt_epoch opt) (opt_n_epochs opt) \<noteq> []
      then Some ZeroDivisionError else None)"
proof -
  obtain trl tel where il: "il opt None = (trl, tel)" by (cases "il opt None")
  have "proj sel_print (trace (adam fw opt (model_cuda (load_or_init_models fw opt (new_model fw (CrNN 130 10 1)))))) = []"
    by (simp add: setup_trace)
  with loop_final [of "\<lambda>dat w. train fw CrossEntropyLoss opt (tv dat (opt_cuda opt) (opt_device opt) False) w"
      sel_print "\<lambda>ep d. []"
      "\<lambda>dat w. test fw CrossEntropyLoss opt (tv dat (opt_cuda opt) (opt_device opt) True) w"
      "\<lambda>ep d. []" "\<lambda>ep tag e. [(tag, e)]" "\<lambda>ep. []" opt trl tel None
      "adam fw opt (model_cuda (load_or_init_models fw opt (new_model fw (CrNN 130 10 1))))"]
  show ?thesis
    unfolding run_def il Let_def prod.case
    by (simp add: train_epoch test_epoch train_prints test_prints)
qed

lemma run_audio_tcalls:
  "proj sel_train_call (trace (final_world (run_audio fw il opt))) =
     concat (map (\<lambda>e. map (\<lambda>d. (Some e, audio_train_input opt d)) (fst (il opt (Some 1))))
               (epochs_run opt))"
proof -
  obtain trl tel where il: "il opt (Some 1) = (trl, tel)" by (cases "il opt (Some 1)")
  have "proj sel_train_call (trace (adam fw opt (model_cuda (load_or_init_models fw opt (new_model fw (CrNN_audio 1 10 2)))))) = []"
    by (simp add: setup_trace)
  with loop_final [of "audio_train_step fw BCELoss opt" sel_train_call
      "\<lambda>ep d. [(ep, audio_train_input opt d)]"
      "audio_test_step fw BCELoss opt" "\<lambda>ep d. []" "\<lambda>ep tag e. []" "\<lambda>ep. []" opt trl tel None
      "adam fw opt (model_cuda (load_or_init_models fw opt (new_model fw (CrNN_audio 1 10 2))))"]
  show ?thesis
    unfolding run_audio_def il Let_def prod.case
    by (simp add: snd_audio_train_step snd_audio_test_step train_audio_epoch test_audio_frame
          train_audio_tcalls test_audio_tcalls concat_map_singleton)
qed

lemma run_tcalls:
  "proj sel_train_call (trace (final_world (run fw il tv opt))) =
     concat (map (\<lambda>e. map (\<lambda>d. (Some e, av_input (tv d (opt_cuda opt) (opt_device opt) False)))
                        (fst (il opt None)))
               (epochs_run opt))"
proof -
  obtain trl tel where il: "il opt None = (trl, tel)" by (cases "il opt None")
  have "proj sel_train_call (trace (adam fw opt (model_cuda (load_or_init_models fw opt (new_model fw (CrNN 130 10 1)))))) = []"
    by (simp add: setup_trace)
  with loop_final [of "\<lambda>dat w. train fw CrossEntropyLoss opt (tv dat (opt_cuda opt) (opt_device opt) False) w"
      sel_train_call "\<lambda>ep d. [(ep, av_input (tv d (opt_cuda opt) (opt_device opt) False))]"
      "\<lambda>dat w. test fw CrossEntropyLoss opt (tv dat (opt_cuda opt) (opt_device opt) True) w"
      "\<lambda>ep d. []" "\<lambda>ep tag e. []" "\<lambda>ep. []" opt trl tel None
      "adam fw opt (model_cuda (load_or_init_models fw opt (new_model fw (CrNN 130 10 1))))"]
  show ?thesis
    unfolding run_def il Let_def prod.case
    by (simp add: train_epoch test_epoch train_tcalls test_tcalls concat_map_singleton)
qed

lemma run_audio_marks:
  "proj sel_mark (trace (final_world (run_audio fw il opt))) =
     concat (map (\<lambda>e. (Some e, Logged ''train'') # (Some e, Logged ''test'') #
                        (if py_mod e (opt_checkpoint_interval opt) = Inr 0 then [(Some e, Saved)] else []))
               (epochs_run opt))"
proof -
  obtain trl tel where il: "il opt (Some 1) = (trl, tel)" by (cases "il opt (Some 1)")
  have "proj sel_mark (trace (adam fw opt (model_cuda (load_or_init_models fw opt (new_model fw (CrNN_audio 1 10 2)))))) = []"
    by (simp add: setup_trace)
  with loop_final [of "audio_train_step fw BCELoss opt" sel_mark "\<lambda>ep d. []"
      "audio_test_step fw BCELoss opt" "\<lambda>ep d. []" "\<lambda>ep tag e. [(ep, Logged tag)]"
      "\<lambda>ep. [(ep, Saved)]" opt trl tel None
      "adam fw opt (model_cuda (load_or_init_models fw opt (new_model fw (CrNN_audio 1 10 2))))"]
  show ?thesis
    unfolding run_audio_def il Let_def prod.case
    by (simp add: snd_audio_train_step snd_audio_test_step train_audio_epoch test_audio_frame
          train_audio_marks test_audio_marks)
qed

lemma run_marks:
  "proj sel_mark (trace (final_world (run fw il tv opt))) =
     concat (map (\<lambda>e. (Some e, Logged ''train'') # (Some e, Logged ''test'') #
                        (if py_mod e (opt_checkpoint_interval opt) = Inr 0 then [(Some e, Saved)] else []))
               (epochs_run opt))"
proof -
  obtain trl tel where il: "il opt None = (trl, tel)" by (cases "il opt None")
  have "proj sel_mark (trace (adam fw opt (model_cuda (load_or_init_models fw opt (new_model fw (CrNN 130 10 1)))))) = []"
    by (simp add: setup_trace)
  with loop_final [of "\<lambda>dat w. train fw CrossEntropyLoss opt (tv dat (opt_cuda opt) (opt_device opt) False) w"
      sel_mark "\<lambda>ep d. []"
      "\<lambda>dat w. test fw CrossEntropyLoss opt (tv dat (opt_cuda opt) (opt_device opt) True) w"
      "\<lambda>ep d. []" "\<lambda>ep tag e. [(ep, Logged tag)]" "\<lambda>ep. [(ep, Saved)]" opt trl tel None
      "adam fw opt (model_cuda (load_or_init_models fw opt (new_model fw (CrNN 130 10 1))))"]
  show ?thesis
    unfolding run_def il Let_def prod.case
    by (simp add: train_epoch test_epoch train_marks test_marks)
qed

lemma length_py_range: "length (py_range a b) = nat (max 0 (b - a))"
  by (simp add: py_range_def)

subsection \<open>The accumulated statistics are sums\<close>

lemma stat_val_simps [simp]:
  "stat_val k [] = 0"
  "stat_val k ((k', v) # l) = (if k' = k then v + stat_val k l else stat_val k l)"
  by (simp_all add: stat_val_def)

lemma stat_val_add_stat:
  "stat_val k (add_stat st (k', v)) = stat_val k st + (if k' = k then v else 0)"
  by (induction st "(k', v)" rule: add_stat.induct) auto

lemma stat_val_foldl_add:
  "stat_val k (foldl add_stat st l) = stat_val k st + stat_val k l"
proof (induction l arbitrary: st)
  case Nil
  then show ?case by simp
next
  case (Cons kv l)
  obtain k' v where kv: "kv = (k', v)" by (cases kv)
  show ?case
    by (simp add: kv Cons.IH stat_val_add_stat)
qed

lemma stat_val_update_stats:
  "stat_val k (update_stats st l) = stat_val k st + stat_val k l"
  by (simp add: update_stats_def stat_val_foldl_add)

lemma stat_val_foldl_update:
  "stat_val k (foldl update_stats st ls) = stat_val k st + stat_sum k ls"
  by (induction ls arbitrary: st) (simp_all add: stat_sum_def stat_val_update_stats)

lemma keys_add_stat: "set (map fst (add_stat st (k, v))) = insert k (set (map fst st))"
  by (induction st "(k, v)" rule: add_stat.induct) auto

lemma distinct_add_stat: "distinct (map fst st) \<Longrightarrow> distinct (map fst (add_stat st (k, v)))"
proof (induction st "(k, v)" rule: add_stat.induct)
  case 1
  then show ?case by simp
next
  case (2 k' a kvs)
  then show ?case
    using keys_add_stat [of kvs k v] by auto
qed

lemma distinct_foldl_add: "distinct (map fst st) \<Longrightarrow> distinct (map fst (foldl add_stat st l))"
proof (induction l arbitrary: st)
  case Nil
  then show ?case by simp
next
  case (Cons kv l)
  obtain k v where kv: "kv = (k, v)" by (cases kv)
  show ?case
    using Cons.prems by (simp add: kv Cons.IH distinct_add_stat)
qed

lemma distinct_foldl_update:
  "distinct (map fst st) \<Longrightarrow> distinct (map fst (foldl update_stats st ls))"
  by (induction ls arbitrary: st) (simp_all add: update_stats_def distinct_foldl_add)

lemma stat_val_distinct: "distinct (map fst st) \<Longrightarrow> (k, v) \<in> set st \<Longrightarrow> stat_val k st = v"
proof (induction st)
  case Nil
  then show ?case by simp
next
  case (Cons kv st)
  obtain k' v' where kv: "kv = (k', v')" by (cases kv)
  have none: "k' \<notin> fst ` set st \<Longrightarrow> stat_val k' st = 0"
    by (induction st) (auto simp: stat_val_def)
  show ?case
    using Cons none by (auto simp: kv image_iff)
qed

lemma stats_are_sums:
  assumes "st = foldl update_stats [] ls"
  shows "map (\<lambda>(k, v). f k v) st = map (\<lambda>k. f k (stat_sum k ls)) (map fst st)"
proof -
  have d: "distinct (map fst st)"
    unfolding assms by (rule distinct_foldl_update) simp
  have "v = stat_sum k ls" if "(k, v) \<in> set st" for k v
    using stat_val_distinct [OF d that] stat_val_foldl_update [of k "[]" ls] assms by simp
  then show ?thesis
    by (auto simp: comp_def)
qed

lemma pass_stats:
  "fst (pass step ds (s, w)) = foldl update_stats s (batch_losses step ds w)"
proof (induction ds arbitrary: s w)
  case Nil
  then show ?case by simp
next
  case (Cons d ds)
  obtain loss w' where st: "step d w = (loss, w')" by (cases "step d w")
  show ?case by (simp add: st Cons.IH)
qed

lemma length_batch_losses [simp]: "length (batch_losses step ds w) = length ds"
proof (induction ds arbitrary: w)
  case Nil
  then show ?case by simp
next
  case (Cons d ds)
  obtain loss w' where st: "step d w = (loss, w')" by (cases "step d w")
  show ?case by (simp add: st Cons.IH)
qed

lemma train_stats_sums:
  "map (\<lambda>(k, v). f k v) (train_stats trs trl e w) =
     map (\<lambda>k. f k (stat_sum k (train_losses trs trl e w))) (map fst (train_stats trs trl e w))"
  by (rule stats_are_sums) (simp add: train_stats_def train_losses_def pass_stats)

lemma test_stats_sums:
  "map (\<lambda>(k, v). f k v) (test_stats opt trs trl tes tel e w) =
     map (\<lambda>k. f k (stat_sum k (test_losses opt trs trl tes tel e w)))
       (map fst (test_stats opt trs trl tes tel e w))"
  by (rule stats_are_sums) (simp add: test_stats_def test_losses_def pass_stats)

lemma scalars_of_log:
  "proj sel_scalar (map (Pair ep) (log_calls tag wr opt e n st)) = map (\<lambda>(k, v). (wr, k, v / real n, e)) st"
  by (induction st) (auto simp: log_calls_def)

lemma printed_of_log:
  "proj sel_printed (map (Pair ep) (log_calls tag wr opt e n st)) = [(tag, map (\<lambda>(k, v). (k, v / real n)) st)]"
proof -
  have "proj sel_printed (map (Pair ep) (map (\<lambda>(k, v). Add_scalar wr k (v / real n) e) st)) = []" for st
    by (induction st) auto
  then show ?thesis
    by (simp add: log_calls_def)
qed

lemma score_of_log:
  "proj sel_score (map (Pair ep) (log_calls tag wr opt e n st)) = []"
proof -
  have "proj sel_score (map (Pair ep) (map (\<lambda>(k, v). Add_scalar wr k (v / real n) e) st)) = []" for st
    by (induction st) auto
  then show ?thesis
    by (simp add: log_calls_def)
qed

lemma epoch_scalars:
  assumes ep1: "\<And>d w. cur_epoch (snd (trs d w)) = cur_epoch w"
      and sc1: "\<And>d w. proj sel_scalar (trace (snd (trs d w))) = proj sel_scalar (trace w) @ []"
      and pr1: "\<And>d w. proj sel_printed (trace (snd (trs d w))) = proj sel_printed (trace w) @ []"
      and ep2: "\<And>d w. cur_epoch (snd (tes d w)) = cur_epoch w"
      and sc2: "\<And>d w. proj sel_scalar (trace (snd (tes d w))) = proj sel_scalar (trace w) @ []"
      and pr2: "\<And>d w. proj sel_printed (trace (snd (tes d w))) = proj sel_printed (trace w) @ []"
  shows "proj sel_scalar (trace (final_world (epoch_body opt trs trl tes tel e (avg, w)))) =
           proj sel_scalar (trace w) @
           map (\<lambda>(k, a). (Train_writer, k, a, e))
             (averages (train_losses trs trl e w) (length trl) (map fst (train_stats trs trl e w))) @
           map (\<lambda>(k, a). (Test_writer, k, a, e))
             (averages (test_losses opt trs trl tes tel e w) (length tel)
                (map fst (test_stats opt trs trl tes tel e w))) \<and>
         proj sel_printed (trace (final_world (epoch_body opt trs trl tes tel e (avg, w)))) =
           proj sel_printed (trace w) @
           [(''train'', averages (train_losses trs trl e w) (length trl) (map fst (train_stats trs trl e w))),
            (''test'', averages (test_losses opt trs trl tes tel e w) (length tel)
                (map fst (test_stats opt trs trl tes tel e w)))]"
proof -
  have a: "map (\<lambda>(k, v). (wr, k, v / real n, e)) (train_stats trs trl e w) =
           map (\<lambda>(k, a). (wr, k, a, e)) (averages (train_losses trs trl e w) n (map fst (train_stats trs trl e w)))"
    for wr n
    using train_stats_sums [of "\<lambda>k v. (wr, k, v / real n, e)" trs trl e w]
    by (simp add: averages_def comp_def)
  have b: "map (\<lambda>(k, v). (wr, k, v / real n, e)) (test_stats opt trs trl tes tel e w) =
           map (\<lambda>(k, a). (wr, k, a, e))
             (averages (test_losses opt trs trl tes tel e w) n (map fst (test_stats opt trs trl tes tel e w)))"
    for wr n
    using test_stats_sums [of "\<lambda>k v. (wr, k, v / real n, e)" opt trs trl tes tel e w]
    by (simp add: averages_def comp_def)
  have c: "map (\<lambda>(k, v). (k, v / real n)) (train_stats trs trl e w) =
           averages (train_losses trs trl e w) n (map fst (train_stats trs trl e w))" for n
    using train_stats_sums [of "\<lambda>k v. (k, v / real n)" trs trl e w]
    by (simp add: averages_def comp_def)
  have d: "map (\<lambda>(k, v). (k, v / real n)) (test_stats opt trs trl tes tel e w) =
           averages (test_losses opt trs trl tes tel e w) n (map fst (test_stats opt trs trl tes tel e w))" for n
    using test_stats_sums [of "\<lambda>k v. (k, v / real n)" opt trs trl tes tel e w]
    by (simp add: averages_def comp_def)
  show ?thesis
    using epoch_body_view [of trs sel_scalar "\<lambda>ep d. []" tes "\<lambda>ep d. []" opt trl tel e avg w, OF ep1 sc1 ep2 sc2]
      epoch_body_view [of trs sel_printed "\<lambda>ep d. []" tes "\<lambda>ep d. []" opt trl tel e avg w, OF ep1 pr1 ep2 pr2]
    by (simp add: scalars_of_log printed_of_log a b c d)
qed

lemma epoch_score:
  assumes ep1: "\<And>d w. cur_epoch (snd (trs d w)) = cur_epoch w"
      and sc1: "\<And>d w. proj sel_score (trace (snd (trs d w))) = proj sel_score (trace w) @ []"
      and ep2: "\<And>d w. cur_epoch (snd (tes d w)) = cur_epoch w"
      and sc2: "\<And>d w. proj sel_score (trace (snd (tes d w))) = proj sel_score (trace w) @ []"
  shows "proj sel_score (trace (final_world (epoch_body opt trs trl tes tel e (avg, w)))) =
           proj sel_score (trace w) @
           (if py_mod e (opt_checkpoint_interval opt) = Inr 0
            then [(Some e,
                   if test_stats opt trs trl tes tel e w = [] then 0
                   else snd (last (test_stats opt trs trl tes tel e w)) / real (length tel))]
            else [])"
  using epoch_body_view [of trs sel_score "\<lambda>ep d. []" tes "\<lambda>ep d. []" opt trl tel e avg w, OF ep1 sc1 ep2 sc2]
  by (simp add: score_of_log last_avg_def)

lemma test_stats_Nil: "test_stats opt trs trl tes [] e w = []"
  by (simp add: test_stats_def)

lemma quiet_scalar:
  "proj sel_scalar (trace (snd (train_audio fw c opt d w))) = proj sel_scalar (trace w) @ []"
  "proj sel_scalar (trace (snd (test_audio fw c opt d w))) = proj sel_scalar (trace w) @ []"
  "proj sel_scalar (trace (snd (train fw' c opt d' w'))) = proj sel_scalar (trace w') @ []"
  "proj sel_scalar (trace (snd (test fw' c opt d' w'))) = proj sel_scalar (trace w') @ []"
proof -
  show "proj sel_scalar (trace (snd (train_audio fw c opt d w))) = proj sel_scalar (trace w) @ []"
    by (cases d) (simp add: train_audio_trace)
  show "proj sel_scalar (trace (snd (test_audio fw c opt d w))) = proj sel_scalar (trace w) @ []"
    by (cases d) (simp add: test_audio_trace)
  show "proj sel_scalar (trace (snd (train fw' c opt d' w'))) = proj sel_scalar (trace w') @ []"
    by (cases d') (simp add: train_trace)
  show "proj sel_scalar (trace (snd (test fw' c opt d' w'))) = proj sel_scalar (trace w') @ []"
    by (cases d') (simp add: test_trace)
qed

lemma quiet_printed:
  "proj sel_printed (trace (snd (train_audio fw c opt d w))) = proj sel_printed (trace w) @ []"
  "proj sel_printed (trace (snd (test_audio fw c opt d w))) = proj sel_printed (trace w) @ []"
  "proj sel_printed (trace (snd (train fw' c opt d' w'))) = proj sel_printed (trace w') @ []"
  "proj sel_printed (trace (snd (test fw' c opt d' w'))) = proj sel_printed (trace w') @ []"
proof -
  show "proj sel_printed (trace (snd (train_audio fw c opt d w))) = proj sel_printed (trace w) @ []"
    by (cases d) (simp add: train_audio_trace)
  show "proj sel_printed (trace (snd (test_audio fw c opt d w))) = proj sel_printed (trace w) @ []"
    by (cases d) (simp add: test_audio_trace)
  show "proj sel_printed (trace (snd (train fw' c opt d' w'))) = proj sel_printed (trace w') @ []"
    by (cases d') (simp add: train_trace)
  show "proj sel_printed (trace (snd (test fw' c opt d' w'))) = proj sel_printed (trace w') @ []"
    by (cases d') (simp add: test_trace)
qed

lemma quiet_score:
  "proj sel_score (trace (snd (train_audio fw c opt d w))) = proj sel_score (trace w) @ []"
  "proj sel_score (trace (snd (test_audio fw c opt d w))) = proj sel_score (trace w) @ []"
  "proj sel_score (trace (snd (train fw' c opt d' w'))) = proj sel_score (trace w') @ []"
  "proj sel_score (trace (snd (test fw' c opt d' w'))) = proj sel_score (trace w') @ []"
proof -
  show "proj sel_score (trace (snd (train_audio fw c opt d w))) = proj sel_score (trace w) @ []"
    by (cases d) (simp add: train_audio_trace)
  show "proj sel_score (trace (snd (test_audio fw c opt d w))) = proj sel_score (trace w) @ []"
    by (cases d) (simp add: test_audio_trace)
  show "proj sel_score (trace (snd (train fw' c opt d' w'))) = proj sel_score (trace w') @ []"
    by (cases d') (simp add: train_trace)
  show "proj sel_score (trace (snd (test fw' c opt d' w'))) = proj sel_score (trace w') @ []"
    by (cases d') (simp add: test_trace)
qed

subsection \<open>What the entry point reaches\<close>

lemma reached_within:
  "reached opt g \<Longrightarrow>
   g \<in> (if opt_benchmark opt then {Main, Benchmark, Load_or_init_models}
        else {Main, Run_audio, Load_or_init_models, Train_audio, Test_audio})"
proof (induction rule: reached.induct)
  case entry
  then show ?case by simp
next
  case (call f g)
  then show ?case
    by (cases f) (auto split: if_splits)
qed

lemma reached_benchmark:
  assumes "opt_benchmark opt"
  shows "reached opt Benchmark" "reached opt Load_or_init_models"
proof -
  show b: "reached opt Benchmark"
    using reached.call [OF reached.entry, of Benchmark opt] assms by simp
  show "reached opt Load_or_init_models"
    using reached.call [OF b, of Load_or_init_models] by simp
qed

lemma reached_audio:
  assumes "\<not> opt_benchmark opt"
  shows "reached opt Run_audio" "reached opt Load_or_init_models"
        "reached opt Train_audio" "reached opt Test_audio"
proof -
  show r: "reached opt Run_audio"
    using reached.call [OF reached.entry, of Run_audio opt] assms by simp
  show "reached opt Load_or_init_models"
    using reached.call [OF r, of Load_or_init_models] by simp
  show "reached opt Train_audio"
    using reached.call [OF r, of Train_audio] by simp
  show "reached opt Test_audio"
    using reached.call [OF r, of Test_audio] by simp
qed

subsection \<open>The loops of \<^verbatim>\<open>benchmark\<close>\<close>

lemma setitem_Inr:
  "setitem a i vals = Inr a' \<longleftrightarrow>
     i < length (cells a) \<and> (\<exists>v. vals = [v] \<and> a' = a\<lparr>cells := (cells a)[i := v], written := written a @ [i]\<rparr>)"
  by (auto simp: setitem_def split: list.splits)

lemma bench_loop_inv:
  "bench_loop fw tv opt ds (out, lg, idx, w) = Inr (out', lg', idx', w') \<Longrightarrow>
     idx' = idx + length ds \<and>
     written out' = written out @ [idx..<idx + length ds] \<and>
     written lg' = written lg @ [idx..<idx + length ds] \<and>
     length (cells out') = length (cells out) \<and>
     length (cells lg') = length (cells lg) \<and>
     cells out' = take idx (cells out) @ concat (map (bench_output fw tv opt w) ds) @
                  drop (idx + length ds) (cells out) \<and>
     params w' = params w \<and> training w' = training w \<and>
     list_all (\<lambda>d. length (bench_output fw tv opt w d) = 1) ds"
proof (induction ds arbitrary: out lg idx w)
  case Nil
  then show ?case by simp
next
  case (Cons d ds)
  obtain fr vo l where tv: "tv d (opt_cuda opt) (opt_device opt) True = (fr, vo, l)"
    by (cases "tv d (opt_cuda opt) (opt_device opt) True")
  let ?o = "fw_forward fw (params w) (training w) (index0 fr, index0 vo)"
  let ?w1 = "emit (Net_call (training w) (index0 fr, index0 vo)) w"
  from Cons.prems obtain out1 lg1 where
    s1: "setitem out idx (data ?o) = Inr out1" and
    s2: "setitem lg idx [of_int (index0 l)] = Inr lg1" and
    rest: "bench_loop fw tv opt ds (out1, lg1, idx + 1, ?w1) = Inr (out', lg', idx', w')"
    by (auto simp: tv net_call_def Let_def split: sum.splits)
  from s1 obtain v where
    i1: "idx < length (cells out)" and dv: "data ?o = [v]" and
    o1: "out1 = out\<lparr>cells := (cells out)[idx := v], written := written out @ [idx]\<rparr>"
    by (auto simp: setitem_Inr)
  from s2 have
    i2: "idx < length (cells lg)" and
    l1: "lg1 = lg\<lparr>cells := (cells lg)[idx := of_int (index0 l)], written := written lg @ [idx]\<rparr>"
    by (auto simp: setitem_Inr)
  have bo: "bench_output fw tv opt w d = [v]"
    by (simp add: bench_output_def tv dv)
  have same: "bench_output fw tv opt ?w1 = bench_output fw tv opt w"
    by (rule ext) (simp add: bench_output_def emit_def)
  have pw: "params ?w1 = params w" "training ?w1 = training w"
    by (simp_all add: emit_def)
  have c1: "cells out1 = (cells out)[idx := v]" and wr1: "written out1 = written out @ [idx]"
    and c2: "length (cells lg1) = length (cells lg)" and wr2: "written lg1 = written lg @ [idx]"
    by (simp_all add: o1 l1)
  have ih1: "idx' = idx + 1 + length ds"
    and ih2: "written out' = written out1 @ [idx + 1..<idx + 1 + length ds]"
    and ih3: "written lg' = written lg1 @ [idx + 1..<idx + 1 + length ds]"
    and ih4: "length (cells out') = length (cells out1)"
    and ih5: "length (cells lg') = length (cells lg1)"
    and ih6: "cells out' = take (idx + 1) (cells out1) @ concat (map (bench_output fw tv opt ?w1) ds) @
                drop (idx + 1 + length ds) (cells out1)"
    and ih7: "params w' = params ?w1" and ih8: "training w' = training ?w1"
    and ih9: "list_all (\<lambda>d. length (bench_output fw tv opt ?w1 d) = 1) ds"
    using Cons.IH [OF rest] by blast+
  have up: "[idx..<idx + length (d # ds)] = idx # [idx + 1..<idx + 1 + length ds]"
    by (simp add: upt_rec)
  have tk: "take (idx + 1) ((cells out)[idx := v]) = take idx (cells out) @ [v]"
    using i1 by (simp add: take_Suc_conv_app_nth)
  have dr: "drop (idx + 1 + length ds) ((cells out)[idx := v]) = drop (idx + length (d # ds)) (cells out)"
    by simp
  have "idx' = idx + length (d # ds)"
    using ih1 by simp
  moreover have "written out' = written out @ [idx..<idx + length (d # ds)]"
    unfolding ih2 wr1 up by simp
  moreover have "written lg' = written lg @ [idx..<idx + length (d # ds)]"
    unfolding ih3 wr2 up by simp
  moreover have "length (cells out') = length (cells out)"
    unfolding ih4 c1 by simp
  moreover have "length (cells lg') = length (cells lg)"
    unfolding ih5 c2 by simp
  moreover have "cells out' = take idx (cells out) @ concat (map (bench_output fw tv opt w) (d # ds)) @
                  drop (idx + length (d # ds)) (cells out)"
    unfolding ih6 c1 same tk dr by (simp add: bo)
  moreover have "params w' = params w \<and> training w' = training w"
    unfolding ih7 ih8 pw by simp
  moreover have "list_all (\<lambda>d. length (bench_output fw tv opt w d) = 1) (d # ds)"
    using ih9 unfolding same by (simp add: bo)
  ultimately show ?case
    by blast
qed

lemma bench_loop_total:
  "idx + length ds \<le> length (cells out) \<Longrightarrow> idx + length ds \<le> length (cells lg) \<Longrightarrow>
   list_all (\<lambda>d. length (bench_output fw tv opt w d) = 1) ds \<Longrightarrow>
   \<not> isl (bench_loop fw tv opt ds (out, lg, idx, w))"
proof (induction ds arbitrary: out lg idx w)
  case Nil
  then show ?case by simp
next
  case (Cons d ds)
  obtain fr vo l where tv: "tv d (opt_cuda opt) (opt_device opt) True = (fr, vo, l)"
    by (cases "tv d (opt_cuda opt) (opt_device opt) True")
  let ?w1 = "emit (Net_call (training w) (index0 fr, index0 vo)) w"
  from Cons.prems(3) obtain v where
    dv: "data (fw_forward fw (params w) (training w) (index0 fr, index0 vo)) = [v]"
    by (auto simp: bench_output_def tv length_Suc_conv)
  have same: "bench_output fw tv opt ?w1 = bench_output fw tv opt w"
    by (rule ext) (simp add: bench_output_def emit_def)
  have "\<not> isl (bench_loop fw tv opt ds
          (out\<lparr>cells := (cells out)[idx := v], written := written out @ [idx]\<rparr>,
           lg\<lparr>cells := (cells lg)[idx := of_int (index0 l)], written := written lg @ [idx]\<rparr>,
           idx + 1, ?w1))"
    using Cons.prems by (intro Cons.IH) (simp_all add: same)
  then show ?case
    using Cons.prems(1,2) by (simp add: tv net_call_def Let_def dv setitem_def)
qed

lemma concat_singletons:
  "list_all (\<lambda>d. length (f d) = 1) ds \<Longrightarrow> length (concat (map f ds)) = length ds"
  by (induction ds) simp_all

lemma bench_output_cong:
  "params w' = params w \<Longrightarrow> training w' = training w \<Longrightarrow>
   bench_output fw tv opt w' = bench_output fw tv opt w"
  by (rule ext) (simp add: bench_output_def)

lemma benchmark_loops_result:
  assumes il: "il opt None = (trl, tel)"
      and res: "benchmark_loops fw il tv opt = Inr (output, label_glob, idx, w)"
  shows "idx = length trl + length tel \<and>
         written output = [0..<idx] \<and> written label_glob = [0..<idx] \<and>
         length (cells output) = idx \<and> length (cells label_glob) = idx \<and>
         cells output = concat (map (bench_output fw tv opt (benchmark_net fw opt)) (trl @ tel))"
proof -
  let ?N = "length tel + length trl"
  let ?net = "(benchmark_net fw opt)\<lparr>grad_enabled := False\<rparr>"
  let ?bo = "bench_output fw tv opt (benchmark_net fw opt)"
  from res obtain o1 l1 i1 w1 w2 where
    first: "bench_loop fw tv opt trl (np_zeros ?N, np_zeros ?N, 0, ?net) = Inr (o1, l1, i1, w1)" and
    second: "bench_loop fw tv opt tel (o1, l1, i1, w1) = Inr (output, label_glob, idx, w2)"
    by (auto simp: benchmark_loops_def il benchmark_net_def Let_def split: sum.splits)
  have bo0: "bench_output fw tv opt ?net = ?bo"
    by (rule bench_output_cong) simp_all
  have a1: "i1 = 0 + length trl" and a2: "written o1 = written (np_zeros ?N) @ [0..<0 + length trl]"
    and a3: "written l1 = written (np_zeros ?N) @ [0..<0 + length trl]"
    and a4: "length (cells o1) = length (cells (np_zeros ?N))"
    and a5: "length (cells l1) = length (cells (np_zeros ?N))"
    and a6: "cells o1 = take 0 (cells (np_zeros ?N)) @ concat (map ?bo trl) @
               drop (0 + length trl) (cells (np_zeros ?N))"
    and a7: "params w1 = params ?net" "training w1 = training ?net"
    and a8: "list_all (\<lambda>d. length (?bo d) = 1) trl"
    using bench_loop_inv [OF first] unfolding bo0 by blast+
  have bo1: "bench_output fw tv opt w1 = ?bo"
    by (rule bench_output_cong) (simp_all add: a7)
  have b1: "idx = i1 + length tel" and b2: "written output = written o1 @ [i1..<i1 + length tel]"
    and b3: "written label_glob = written l1 @ [i1..<i1 + length tel]"
    and b4: "length (cells output) = length (cells o1)"
    and b5: "length (cells label_glob) = length (cells l1)"
    and b6: "cells output = take i1 (cells o1) @ concat (map ?bo tel) @ drop (i1 + length tel) (cells o1)"
    using bench_loop_inv [OF second] unfolding bo1 by blast+
  have len: "length (concat (map ?bo trl)) = length trl"
    by (rule concat_singletons [OF a8])
  have up: "[0..<length trl] @ [length trl..<length trl + length tel] = [0..<length trl + length tel]"
    by (simp add: upt_add_eq_append [symmetric])
  have tk: "take (length trl) (cells o1) = concat (map ?bo trl)"
    unfolding a6 using len by simp
  have dr: "drop (length trl + length tel) (cells o1) = []"
    using a4 by (simp add: np_zeros_def)
  have "idx = length trl + length tel"
    unfolding b1 a1 by simp
  moreover have "written output = [0..<length trl + length tel]"
    unfolding b2 a1 a2 using up by (simp add: np_zeros_def)
  moreover have "written label_glob = [0..<length trl + length tel]"
    unfolding b3 a1 a3 using up by (simp add: np_zeros_def)
  moreover have "length (cells output) = length trl + length tel"
    unfolding b4 a4 by (simp add: np_zeros_def)
  moreover have "length (cells label_glob) = length trl + length tel"
    unfolding b5 a5 by (simp add: np_zeros_def)
  moreover have "cells output = concat (map ?bo (trl @ tel))"
    unfolding b6 a1 using tk dr by simp
  ultimately show ?thesis
    by simp
qed

lemma benchmark_loops_total:
  assumes il: "il opt None = (trl, tel)"
      and one: "list_all (\<lambda>d. length (bench_output fw tv opt (benchmark_net fw opt) d) = 1) (trl @ tel)"
  shows "\<not> isl (benchmark_loops fw il tv opt)"
proof -
  let ?N = "length tel + length trl"
  let ?net = "(benchmark_net fw opt)\<lparr>grad_enabled := False\<rparr>"
  let ?bo = "bench_output fw tv opt (benchmark_net fw opt)"
  have bo0: "bench_output fw tv opt ?net = ?bo"
    by (rule bench_output_cong) simp_all
  have "\<not> isl (bench_loop fw tv opt trl (np_zeros ?N, np_zeros ?N, 0, ?net))"
    using one by (intro bench_loop_total) (simp_all add: np_zeros_def bo0)
  then obtain o1 l1 i1 w1 where
    first: "bench_loop fw tv opt trl (np_zeros ?N, np_zeros ?N, 0, ?net) = Inr (o1, l1, i1, w1)"
    by (cases "bench_loop fw tv opt trl (np_zeros ?N, np_zeros ?N, 0, ?net)") auto
  have a1: "i1 = 0 + length trl" and a4: "length (cells o1) = length (cells (np_zeros ?N))"
    and a5: "length (cells l1) = length (cells (np_zeros ?N))"
    and a7: "params w1 = params ?net" "training w1 = training ?net"
    using bench_loop_inv [OF first] by blast+
  have bo1: "bench_output fw tv opt w1 = ?bo"
    by (rule bench_output_cong) (simp_all add: a7)
  have "\<not> isl (bench_loop fw tv opt tel (o1, l1, i1, w1))"
    using one by (intro bench_loop_total) (simp_all add: a1 a4 a5 bo1 np_zeros_def)
  moreover have "benchmark_loops fw il tv opt =
      (case bench_loop fw tv opt trl (np_zeros ?N, np_zeros ?N, 0, ?net) of
         Inl err \<Rightarrow> Inl err
       | Inr s \<Rightarrow>
           (case bench_loop fw tv opt tel s of
              Inl err \<Rightarrow> Inl err
            | Inr (output, label_glob, idx, w) \<Rightarrow>
                Inr (output, label_glob, idx, w\<lparr>grad_enabled := grad_enabled (benchmark_net fw opt)\<rparr>)))"
    unfolding benchmark_loops_def il benchmark_net_def Let_def by simp
  ultimately show ?thesis
    unfolding first by (auto split: sum.splits)
qed

subsection \<open>The small instance, evaluated\<close>

lemmas toy_defs = train_audio_def test_audio_def train_def test_def prims Let_def
  update_stats_def fw0_def fw1_def new_model_def batch_a_def batch_b_def batch_c_def batch_d_def
  opt0_def net0_def net1_def log_calls_def emits_def cuda_def tensor_mul_def cpu_def

lemma toy_step_facts:
  "params net0' = [1, 2]" "grads net0' = [5, 7]" "opt_state net0' = [3]" "trace net0' = []"
  "cur_epoch net0' = None"
  by (simp_all add: net0'_def net0_def new_model_def fw0_def)

lemma toy_train_losses:
  "train_losses (audio_train_step fw0 BCELoss opt0) [batch_a, batch_b] 0 net0 =
     [[(''train loss'', 305), (''accuracy'', 1 / 2)], [(''train loss'', 300), (''accuracy'', 1 / 2)]]"
  by (simp add: train_losses_def toy_defs)

lemma toy_train_stats:
  "train_stats (audio_train_step fw0 BCELoss opt0) [batch_a, batch_b] 0 net0 =
     [(''train loss'', 605), (''accuracy'', 1)]"
  by (simp add: train_stats_def toy_defs)

lemma toy_test_losses:
  "test_losses opt0 (audio_train_step fw0 BCELoss opt0) [batch_a, batch_b]
     (audio_test_step fw0 BCELoss opt0) [batch_b] 0 net0 =
     [[(''test loss'', 1), (''accuracy'', 1 / 2)]]"
  by (simp add: test_losses_def after_train_log_def toy_defs)

lemma toy_test_stats:
  "test_stats opt0 (audio_train_step fw0 BCELoss opt0) [batch_a, batch_b]
     (audio_test_step fw0 BCELoss opt0) [batch_b] 0 net0 =
     [(''test loss'', 1), (''accuracy'', 1 / 2)]"
  by (simp add: test_stats_def after_train_log_def toy_defs)

lemma toy_test_stats_av:
  "test_stats opt0 (av_train_step fw1 CrossEntropyLoss to_variables0 opt0) [batch_c, batch_d]
     (av_test_step fw1 CrossEntropyLoss to_variables0 opt0) [batch_d] 2 net1 =
     [(''test loss'', - 1 / 2)]"
  by (simp add: test_stats_def after_train_log_def toy_defs)

lemma toy_bench_outputs:
  "map (bench_output fw1 to_variables0 opt0 (benchmark_net fw1 opt0)) [batch_c, batch_c', batch_d] =
     [[9], [5 / 2], [7 / 2]]"
  by (simp add: bench_output_def benchmark_net_def model_cuda_def load_or_init_models_def new_model_def
      emit_def fw1_def opt0_def batch_c_def batch_c'_def batch_d_def cpu_def cuda_def Let_def)

lemma toy_np_round: "map np_round [9, 5 / 2, 7 / 2] = [9, 2, 4]"
  by (simp add: np_round_def Let_def)

section \<open>The claims\<close>

text \<open>
  C1, as the code has it. From the entry point the functions reached are
  \<^verbatim>\<open>benchmark\<close> and \<^verbatim>\<open>load_or_init_models\<close> when \<^verbatim>\<open>opt.benchmark\<close> is set, and
  \<^verbatim>\<open>run_audio\<close>, \<^verbatim>\<open>load_or_init_models\<close>, \<^verbatim>\<open>train_audio\<close> and \<^verbatim>\<open>test_audio\<close> when it is
  not; the audio+video training routine \<^verbatim>\<open>run\<close> is reached for no options. The entry
  point runs \<^verbatim>\<open>benchmark\<close> or \<^verbatim>\<open>run_audio\<close>.
\<close>

theorem entry_point_reach:
  "(reached opt g \<longleftrightarrow>
      g \<in> (if opt_benchmark opt then {Main, Benchmark, Load_or_init_models}
           else {Main, Run_audio, Load_or_init_models, Train_audio, Test_audio})) \<and>
   \<not> reached opt Run \<and>
   main fw_audio fw_av loaders_audio loaders_av tv opt =
     (if opt_benchmark opt then Inl (benchmark fw_av loaders_av tv opt)
      else Inr (run_audio fw_audio loaders_audio opt))"
proof -
  have a: "reached opt g \<longleftrightarrow>
      g \<in> (if opt_benchmark opt then {Main, Benchmark, Load_or_init_models}
           else {Main, Run_audio, Load_or_init_models, Train_audio, Test_audio})"
    using reached_within [of opt g] reached_benchmark [of opt] reached_audio [of opt] reached.entry [of opt]
    by (auto split: if_splits)
  have b: "\<not> reached opt Run"
    using reached_within [of opt Run] by (auto split: if_splits)
  show ?thesis
    using a b by (simp add: main_def)
qed

theorem entry_point_reach_witness:
  "reached opt0 Run_audio \<and> reached (opt0\<lparr>opt_benchmark := True\<rparr>) Benchmark \<and>
   \<not> reached (opt0\<lparr>opt_benchmark := True\<rparr>) Run_audio \<and> \<not> reached opt0 Run \<and>
   main fw0 fw1 loaders0 loaders1 to_variables0 opt0 = Inr (run_audio fw0 loaders0 opt0)"
  using entry_point_reach [of opt0 Run_audio fw0 fw1 loaders0 loaders1 to_variables0]
    entry_point_reach [of "opt0\<lparr>opt_benchmark := True\<rparr>" Benchmark fw0 fw1 loaders0 loaders1 to_variables0]
    entry_point_reach [of "opt0\<lparr>opt_benchmark := True\<rparr>" Run_audio fw0 fw1 loaders0 loaders1 to_variables0]
  by (simp add: opt0_def)

text \<open>
  C1 as stated fails: there are options that reach \<^verbatim>\<open>run_audio\<close>, and none that reach
  \<^verbatim>\<open>run\<close>.
\<close>

theorem run_unreachable_counterexample:
  "\<not> ((\<exists>opt. reached opt Run_audio) \<and> (\<exists>opt. reached opt Run))"
proof
  assume "(\<exists>opt. reached opt Run_audio) \<and> (\<exists>opt. reached opt Run)"
  then obtain opt where "reached opt Run" by blast
  from reached_within [OF this] show False
    by (simp split: if_splits)
qed

text \<open>
  C2. In a run of either variant, the printed lines and the checkpoint saves are, epoch
  after epoch: the training line, the test line, and then a call of
  \<^verbatim>\<open>net_saver.save_if_best\<close> exactly when \<^verbatim>\<open>epoch % opt.checkpoint_interval == 0\<close>
  holds. A save is attempted at the end of an epoch that satisfies the test and at no
  other epoch. (With an interval of zero the test raises and nothing is saved.)
\<close>

theorem checkpoint_epochs:
  "proj sel_mark (trace (final_world (run_audio fw il opt))) =
     concat (map (\<lambda>e. (Some e, Logged ''train'') # (Some e, Logged ''test'') #
                        (if py_mod e (opt_checkpoint_interval opt) = Inr 0 then [(Some e, Saved)] else []))
               (epochs_run opt)) \<and>
   proj sel_mark (trace (final_world (run fw' il' tv opt))) =
     concat (map (\<lambda>e. (Some e, Logged ''train'') # (Some e, Logged ''test'') #
                        (if py_mod e (opt_checkpoint_interval opt) = Inr 0 then [(Some e, Saved)] else []))
               (epochs_run opt))"
  by (simp add: run_audio_marks run_marks)

theorem checkpoint_epochs_witness:
  "proj sel_mark (trace (final_world (run_audio fw0 loaders0 opt0))) =
     [(Some 0, Logged ''train''), (Some 0, Logged ''test''), (Some 0, Saved),
      (Some 1, Logged ''train''), (Some 1, Logged ''test''),
      (Some 2, Logged ''train''), (Some 2, Logged ''test''), (Some 2, Saved)] \<and>
   proj sel_mark (trace (final_world (run fw1 loaders1 to_variables0 (opt0\<lparr>opt_checkpoint_interval := 0\<rparr>)))) =
     [(Some 0, Logged ''train''), (Some 0, Logged ''test'')]"
  using checkpoint_epochs [of fw0 loaders0 opt0 fw1 loaders1 to_variables0]
    checkpoint_epochs [of fw0 loaders0 "opt0\<lparr>opt_checkpoint_interval := 0\<rparr>" fw1 loaders1 to_variables0]
  by (simp add: opt0_def epochs_run_def py_range_def py_mod_def upto_rec1)

text \<open>
  C3, as the code has it. When \<^verbatim>\<open>opt.checkpoint_interval\<close> is not zero, a run of either
  variant raises nothing and goes through every epoch of
  \<^verbatim>\<open>range(opt.epoch, opt.n_epochs)\<close>, in order: that is
  \<^verbatim>\<open>max(0, opt.n_epochs - opt.epoch)\<close> epochs. In each epoch the network is called in
  training mode once for every batch of the training loader, in the loader's order.
\<close>

theorem epochs_and_batches:
  assumes "opt_checkpoint_interval opt \<noteq> 0"
  shows "raised (run_audio fw il opt) = None \<and>
         proj sel_print (trace (final_world (run_audio fw il opt))) =
           concat (map (\<lambda>e. [(''train'', e), (''test'', e)]) (py_range (opt_epoch opt) (opt_n_epochs opt))) \<and>
         proj sel_train_call (trace (final_world (run_audio fw il opt))) =
           concat (map (\<lambda>e. map (\<lambda>d. (Some e, audio_train_input opt d)) (fst (il opt (Some 1))))
                     (py_range (opt_epoch opt) (opt_n_epochs opt))) \<and>
         raised (run fw' il' tv opt) = None \<and>
         proj sel_print (trace (final_world (run fw' il' tv opt))) =
           concat (map (\<lambda>e. [(''train'', e), (''test'', e)]) (py_range (opt_epoch opt) (opt_n_epochs opt))) \<and>
         proj sel_train_call (trace (final_world (run fw' il' tv opt))) =
           concat (map (\<lambda>e. map (\<lambda>d. (Some e, av_input (tv d (opt_cuda opt) (opt_device opt) False)))
                              (fst (il' opt None)))
                     (py_range (opt_epoch opt) (opt_n_epochs opt))) \<and>
         length (py_range (opt_epoch opt) (opt_n_epochs opt)) = nat (max 0 (opt_n_epochs opt - opt_epoch opt))"
  using assms run_audio_prints [of fw il opt] run_prints [of fw' il' tv opt]
    run_audio_tcalls [of fw il opt] run_tcalls [of fw' il' tv opt]
  by (simp add: epochs_run_def length_py_range)

theorem epochs_and_batches_witness:
  "opt_checkpoint_interval opt0 \<noteq> 0 \<and>
   raised (run_audio fw0 loaders0 opt0) = None \<and>
   proj sel_print (trace (final_world (run_audio fw0 loaders0 opt0))) =
     [(''train'', 0), (''test'', 0), (''train'', 1), (''test'', 1), (''train'', 2), (''test'', 2)] \<and>
   proj sel_train_call (trace (final_world (run_audio fw0 loaders0 opt0))) =
     [(Some 0, (\<lparr>device = CUDA, data = [100, 200]\<rparr>, [2])), (Some 0, (\<lparr>device = CUDA, data = [300]\<rparr>, [1])),
      (Some 1, (\<lparr>device = CUDA, data = [100, 200]\<rparr>, [2])), (Some 1, (\<lparr>device = CUDA, data = [300]\<rparr>, [1])),
      (Some 2, (\<lparr>device = CUDA, data = [100, 200]\<rparr>, [2])), (Some 2, (\<lparr>device = CUDA, data = [300]\<rparr>, [1]))] \<and>
   proj sel_train_call (trace (final_world (run fw1 loaders1 to_variables0 opt0))) =
     [(Some 0, (\<lparr>device = CUDA, data = [1]\<rparr>, \<lparr>device = CUDA, data = [2, 3]\<rparr>)),
      (Some 0, (\<lparr>device = CUDA, data = [0]\<rparr>, \<lparr>device = CUDA, data = [1 / 2]\<rparr>)),
      (Some 1, (\<lparr>device = CUDA, data = [1]\<rparr>, \<lparr>device = CUDA, data = [2, 3]\<rparr>)),
      (Some 1, (\<lparr>device = CUDA, data = [0]\<rparr>, \<lparr>device = CUDA, data = [1 / 2]\<rparr>)),
      (Some 2, (\<lparr>device = CUDA, data = [1]\<rparr>, \<lparr>device = CUDA, data = [2, 3]\<rparr>)),
      (Some 2, (\<lparr>device = CUDA, data = [0]\<rparr>, \<lparr>device = CUDA, data = [1 / 2]\<rparr>))]"
proof -
  have h: "opt_checkpoint_interval opt0 \<noteq> 0" by (simp add: opt0_def)
  show ?thesis
    using h epochs_and_batches [OF h, of fw0 loaders0 fw1 loaders1 to_variables0]
    by (simp add: opt0_def py_range_def upto_rec1 loaders0_def loaders1_def batch_a_def batch_b_def
        batch_c_def batch_d_def cpu_def cuda_def tensor_mul_def)
qed

text \<open>
  C3 as stated fails: with \<^verbatim>\<open>opt.epoch = 0\<close>, \<^verbatim>\<open>opt.n_epochs = 3\<close> and
  \<^verbatim>\<open>opt.checkpoint_interval = 0\<close> the run raises \<^verbatim>\<open>ZeroDivisionError\<close> at the end of
  epoch 0, after one epoch and not three.
\<close>

theorem zero_interval_counterexample:
  "raised (run_audio fw0 loaders0 (opt0\<lparr>opt_checkpoint_interval := 0\<rparr>)) = Some ZeroDivisionError \<and>
   proj sel_print (trace (final_world (run_audio fw0 loaders0 (opt0\<lparr>opt_checkpoint_interval := 0\<rparr>)))) =
     [(''train'', 0), (''test'', 0)] \<and>
   proj sel_train_call (trace (final_world (run_audio fw0 loaders0 (opt0\<lparr>opt_checkpoint_interval := 0\<rparr>)))) =
     [(Some 0, (\<lparr>device = CUDA, data = [100, 200]\<rparr>, [2])), (Some 0, (\<lparr>device = CUDA, data = [300]\<rparr>, [1]))] \<and>
   max 0 (opt_n_epochs (opt0\<lparr>opt_checkpoint_interval := 0\<rparr>) - opt_epoch (opt0\<lparr>opt_checkpoint_interval := 0\<rparr>)) = 3"
  using run_audio_prints [of fw0 loaders0 "opt0\<lparr>opt_checkpoint_interval := 0\<rparr>"]
    run_audio_tcalls [of fw0 loaders0 "opt0\<lparr>opt_checkpoint_interval := 0\<rparr>"]
  by (simp add: opt0_def epochs_run_def py_range_def upto_rec1 loaders0_def batch_a_def batch_b_def
        cpu_def cuda_def tensor_mul_def)

text \<open>
  C4. In an epoch of \<^verbatim>\<open>run_audio\<close>, for every key of the training statistics the value
  written to the training writer and printed is the sum of that statistic over the
  training batches of the epoch divided by \<^verbatim>\<open>len(train_loader)\<close>, and likewise for the
  test statistics, the test writer and \<^verbatim>\<open>len(test_loader)\<close>; there is one dictionary
  per batch. (With \<^verbatim>\<open>update_stats\<close> as modelled from the spec.)
\<close>

theorem averaged_statistics:
  "proj sel_scalar (trace (final_world
      (epoch_body opt (audio_train_step fw c opt) trl (audio_test_step fw c opt) tel e (avg, w)))) =
     proj sel_scalar (trace w) @
     map (\<lambda>(k, a). (Train_writer, k, a, e))
       (averages (train_losses (audio_train_step fw c opt) trl e w) (length trl)
          (map fst (train_stats (audio_train_step fw c opt) trl e w))) @
     map (\<lambda>(k, a). (Test_writer, k, a, e))
       (averages (test_losses opt (audio_train_step fw c opt) trl (audio_test_step fw c opt) tel e w) (length tel)
          (map fst (test_stats opt (audio_train_step fw c opt) trl (audio_test_step fw c opt) tel e w))) \<and>
   proj sel_printed (trace (final_world
      (epoch_body opt (audio_train_step fw c opt) trl (audio_test_step fw c opt) tel e (avg, w)))) =
     proj sel_printed (trace w) @
     [(''train'', averages (train_losses (audio_train_step fw c opt) trl e w) (length trl)
          (map fst (train_stats (audio_train_step fw c opt) trl e w))),
      (''test'', averages (test_losses opt (audio_train_step fw c opt) trl (audio_test_step fw c opt) tel e w) (length tel)
          (map fst (test_stats opt (audio_train_step fw c opt) trl (audio_test_step fw c opt) tel e w)))] \<and>
   length (train_losses (audio_train_step fw c opt) trl e w) = length trl \<and>
   length (test_losses opt (audio_train_step fw c opt) trl (audio_test_step fw c opt) tel e w) = length tel"
  using epoch_scalars [of "audio_train_step fw c opt" "audio_test_step fw c opt" opt trl tel e avg w]
  by (simp add: snd_audio_train_step snd_audio_test_step train_audio_epoch test_audio_frame
      quiet_scalar quiet_printed train_losses_def test_losses_def)

theorem averaged_statistics_witness:
  "proj sel_scalar (trace (final_world
      (epoch_body opt0 (audio_train_step fw0 BCELoss opt0) [batch_a, batch_b]
         (audio_test_step fw0 BCELoss opt0) [batch_b] 0 (None, net0)))) =
     [(Train_writer, ''train loss'', 605 / 2, 0), (Train_writer, ''accuracy'', 1 / 2, 0),
      (Test_writer, ''test loss'', 1, 0), (Test_writer, ''accuracy'', 1 / 2, 0)] \<and>
   proj sel_printed (trace (final_world
      (epoch_body opt0 (audio_train_step fw0 BCELoss opt0) [batch_a, batch_b]
         (audio_test_step fw0 BCELoss opt0) [batch_b] 0 (None, net0)))) =
     [(''train'', [(''train loss'', 605 / 2), (''accuracy'', 1 / 2)]),
      (''test'', [(''test loss'', 1), (''accuracy'', 1 / 2)])]"
proof -
  have t: "trace net0 = []"
    by (simp add: net0_def new_model_def)
  show ?thesis
    using averaged_statistics [of opt0 fw0 BCELoss "[batch_a, batch_b]" "[batch_b]" 0 None
      net0]
    by (simp add: toy_train_losses toy_train_stats toy_test_losses toy_test_stats t
        averages_def stat_sum_def)
qed

text \<open>
  C5. A training batch makes its calls in this order: \<^verbatim>\<open>net.train()\<close>,
  \<^verbatim>\<open>optimizer.zero_grad()\<close>, the forward pass, the loss, \<^verbatim>\<open>losses.backward()\<close>,
  \<^verbatim>\<open>optimizer.step()\<close>; the audio variant moves the tensors in between when
  \<^verbatim>\<open>opt.cuda\<close> is set. The optimizer steps exactly once per batch. After the batch the
  network is in training mode; the gradients are what the backward pass of this batch
  computes from zeroed gradients, at the parameters the batch started with, so nothing of
  an earlier batch is left in them; the parameters and the optimizer state are what one
  optimizer step makes of the old parameters, these gradients and the old optimizer state;
  and the loss returned is the criterion on the output of the forward pass in training
  mode. Both \<^verbatim>\<open>train_audio\<close> and \<^verbatim>\<open>train\<close>.
\<close>

theorem training_batch_steps:
  "new_calls w (snd (train_audio fw c opt (v, l, n) w)) =
     [Net_train, Zero_grad] @ (if opt_cuda opt then [Tensor_cuda v, Tensor_cuda l] else []) @
     [Net_call True (audio_train_input opt (v, l, n)),
      Criterion_call (fw_forward fw (params w) True (audio_train_input opt (v, l, n)))
         (if opt_cuda opt then cuda l else l),
      Backward, Optimizer_step] \<and>
   count_list (new_calls w (snd (train_audio fw c opt (v, l, n) w))) Optimizer_step = 1 \<and>
   new_calls w' (snd (train fw' c' opt (fr, vo, l') w')) =
     [Net_train, Zero_grad, Net_call True (av_input (fr, vo, l')),
      Criterion_call (fw_forward fw' (params w') True (av_input (fr, vo, l'))) l',
      Backward, Optimizer_step] \<and>
   count_list (new_calls w' (snd (train fw' c' opt (fr, vo, l') w'))) Optimizer_step = 1 \<and>
   training (snd (train_audio fw c opt (v, l, n) w)) = True \<and>
   grads (snd (train_audio fw c opt (v, l, n) w)) =
     fw_backward fw (params w) (audio_train_input opt (v, l, n)) (if opt_cuda opt then cuda l else l)
       (map (\<lambda>g. 0) (grads w)) \<and>
   params (snd (train_audio fw c opt (v, l, n) w)) =
     fst (fw_step fw (params w)
            (fw_backward fw (params w) (audio_train_input opt (v, l, n)) (if opt_cuda opt then cuda l else l)
               (map (\<lambda>g. 0) (grads w)))
            (opt_state w)) \<and>
   opt_state (snd (train_audio fw c opt (v, l, n) w)) =
     snd (fw_step fw (params w)
            (fw_backward fw (params w) (audio_train_input opt (v, l, n)) (if opt_cuda opt then cuda l else l)
               (map (\<lambda>g. 0) (grads w)))
            (opt_state w)) \<and>
   fst (train_audio fw c opt (v, l, n) w) =
     ([(''train loss'',
        fw_criterion fw c (fw_forward fw (params w) True (audio_train_input opt (v, l, n)))
          (if opt_cuda opt then cuda l else l)),
       (''accuracy'',
        fw_accuracy fw (if opt_cuda opt then cuda l else l)
          (fw_forward fw (params w) True (audio_train_input opt (v, l, n))))],
      fw_forward fw (params w) True (audio_train_input opt (v, l, n))) \<and>
   training (snd (train fw' c' opt (fr, vo, l') w')) = True \<and>
   grads (snd (train fw' c' opt (fr, vo, l') w')) =
     fw_backward fw' (params w') (av_input (fr, vo, l')) l' (map (\<lambda>g. 0) (grads w')) \<and>
   params (snd (train fw' c' opt (fr, vo, l') w')) =
     fst (fw_step fw' (params w')
            (fw_backward fw' (params w') (av_input (fr, vo, l')) l' (map (\<lambda>g. 0) (grads w')))
            (opt_state w')) \<and>
   opt_state (snd (train fw' c' opt (fr, vo, l') w')) =
     snd (fw_step fw' (params w')
            (fw_backward fw' (params w') (av_input (fr, vo, l')) l' (map (\<lambda>g. 0) (grads w')))
            (opt_state w')) \<and>
   fst (train fw' c' opt (fr, vo, l') w') =
     [(''train loss'', fw_criterion fw' c' (fw_forward fw' (params w') True (av_input (fr, vo, l'))) l')]"
  by (simp add: train_audio_calls train_calls train_audio_state train_state)

theorem training_batch_steps_witness:
  "new_calls net0' (snd (train_audio fw0 BCELoss opt0 (cpu [1, 2], cpu [1, 0], [2]) net0')) =
     [Net_train, Zero_grad, Tensor_cuda (cpu [1, 2]), Tensor_cuda (cpu [1, 0]),
      Net_call True (\<lparr>device = CUDA, data = [100, 200]\<rparr>, [2]),
      Criterion_call \<lparr>device = CUDA, data = [103, 203]\<rparr> \<lparr>device = CUDA, data = [1, 0]\<rparr>,
      Backward, Optimizer_step] \<and>
   grads (snd (train_audio fw0 BCELoss opt0 (cpu [1, 2], cpu [1, 0], [2]) net0')) = [1, 1] \<and>
   params (snd (train_audio fw0 BCELoss opt0 (cpu [1, 2], cpu [1, 0], [2]) net0')) = [0, 1] \<and>
   opt_state (snd (train_audio fw0 BCELoss opt0 (cpu [1, 2], cpu [1, 0], [2]) net0')) = [4] \<and>
   fst (train_audio fw0 BCELoss opt0 (cpu [1, 2], cpu [1, 0], [2]) net0') =
     ([(''train loss'', 305), (''accuracy'', 1 / 2)], \<lparr>device = CUDA, data = [103, 203]\<rparr>) \<and>
   new_calls net1 (snd (train fw1 CrossEntropyLoss opt0 (Batch (cpu [1]) [], Batch (cpu [2, 3]) [], Batch 1 []) net1)) =
     [Net_train, Zero_grad, Net_call True (cpu [1], cpu [2, 3]),
      Criterion_call \<lparr>device = CPU, data = [9]\<rparr> (Batch 1 []),
      Backward, Optimizer_step] \<and>
   grads (snd (train fw1 CrossEntropyLoss opt0 (Batch (cpu [1]) [], Batch (cpu [2, 3]) [], Batch 1 []) net1)) = [1, 1] \<and>
   params (snd (train fw1 CrossEntropyLoss opt0 (Batch (cpu [1]) [], Batch (cpu [2, 3]) [], Batch 1 []) net1)) = [0, 1]"
proof -
  have n1: "params net1 = [1, 2]" "grads net1 = [0, 0]" "opt_state net1 = []"
    by (simp_all add: net1_def new_model_def fw1_def)
  have f0: "fw_forward fw0 [1, 2] True (\<lparr>device = CUDA, data = [100, 200]\<rparr>, [2]) = \<lparr>device = CUDA, data = [103, 203]\<rparr>"
    "fw_backward fw0 p x lb g = map (\<lambda>y. y + 1) g"
    "fw_step fw0 p g s = (map2 (\<lambda>a b. a - b) p g, map (\<lambda>y. y + 1) s)"
    "fw_criterion fw0 k out lb = sum_list (data out) - sum_list (data lb)"
    "fw_accuracy fw0 lb out = (if device lb = device out then 1 / 2 else 0)"
    for p x lb g s k out
    by (simp_all add: fw0_def)
  have f1: "fw_forward fw1 [1, 2] True (\<lparr>device = CPU, data = [1]\<rparr>, \<lparr>device = CPU, data = [2, 3]\<rparr>) =
      \<lparr>device = CPU, data = [9]\<rparr>"
    "fw_backward fw1 p x lb' g = map (\<lambda>y. y + 1) g"
    "fw_step fw1 p g s = (map2 (\<lambda>a b. a - b) p g, map (\<lambda>y. y + 1) s)"
    for p x lb' g s
    by (simp_all add: fw1_def cpu_def)
  have o: "opt_cuda opt0" by (simp add: opt0_def)
  show ?thesis
    using training_batch_steps [of net0' fw0 BCELoss opt0 "cpu [1, 2]" "cpu [1, 0]" "[2]" net1 fw1
        CrossEntropyLoss "Batch (cpu [1]) []" "Batch (cpu [2, 3]) []" "Batch 1 []"]
    by (simp add: toy_step_facts n1 f0 f1 o cpu_def cuda_def tensor_mul_def)
qed

text \<open>
  C6, as the code has it. When \<^verbatim>\<open>opt.cuda\<close> is set, a training and a test batch of
  the audio variant call \<^verbatim>\<open>.cuda()\<close> on the volumes and on the labels before the forward
  pass, and the network and the loss get the moved tensors. When it is not set no tensor
  is moved: the network gets the volumes on the device the loader left them on. The
  network itself is moved to CUDA whatever \<^verbatim>\<open>opt.cuda\<close> says.
\<close>

theorem guarded_move:
  "(opt_cuda opt \<longrightarrow>
      new_calls w (snd (train_audio fw c opt (v, l, n) w)) =
        [Net_train, Zero_grad, Tensor_cuda v, Tensor_cuda l,
         Net_call True (tensor_mul (cuda v) 100, n),
         Criterion_call (fw_forward fw (params w) True (tensor_mul (cuda v) 100, n)) (cuda l),
         Backward, Optimizer_step] \<and>
      new_calls w (snd (test_audio fw c opt (v, l, n) w)) =
        [Net_eval, Tensor_cuda v, Tensor_cuda l, Net_call False (cuda v, n),
         Criterion_call (fw_forward fw (params w) False (cuda v, n)) (cuda l)] \<and>
      device (tensor_mul (cuda v) 100) = CUDA \<and> device (cuda v) = CUDA \<and> device (cuda l) = CUDA) \<and>
   (\<not> opt_cuda opt \<longrightarrow>
      new_calls w (snd (train_audio fw c opt (v, l, n) w)) =
        [Net_train, Zero_grad, Net_call True (tensor_mul v 100, n),
         Criterion_call (fw_forward fw (params w) True (tensor_mul v 100, n)) l,
         Backward, Optimizer_step] \<and>
      new_calls w (snd (test_audio fw c opt (v, l, n) w)) =
        [Net_eval, Net_call False (v, n),
         Criterion_call (fw_forward fw (params w) False (v, n)) l] \<and>
      device (tensor_mul v 100) = device v) \<and>
   net_device (model_cuda (load_or_init_models fw opt (new_model fw a))) = CUDA"
  by (simp add: train_audio_calls test_audio_calls cuda_def tensor_mul_def model_cuda_def emit_def)

theorem guarded_move_witness:
  "opt_cuda opt0 \<and> \<not> opt_cuda (opt0\<lparr>opt_cuda := False\<rparr>) \<and>
   new_calls (new_model fw0 (CrNN_audio 1 10 2))
      (snd (test_audio fw0 BCELoss opt0 (cpu [1, 2], cpu [1, 0], [2]) (new_model fw0 (CrNN_audio 1 10 2)))) =
     [Net_eval, Tensor_cuda (cpu [1, 2]), Tensor_cuda (cpu [1, 0]),
      Net_call False (\<lparr>device = CUDA, data = [1, 2]\<rparr>, [2]),
      Criterion_call \<lparr>device = CUDA, data = [4, 5]\<rparr> \<lparr>device = CUDA, data = [1, 0]\<rparr>] \<and>
   new_calls (new_model fw0 (CrNN_audio 1 10 2))
      (snd (test_audio fw0 BCELoss (opt0\<lparr>opt_cuda := False\<rparr>) (cpu [1, 2], cpu [1, 0], [2])
         (new_model fw0 (CrNN_audio 1 10 2)))) =
     [Net_eval, Net_call False (cpu [1, 2], [2]),
      Criterion_call \<lparr>device = CPU, data = [4, 5]\<rparr> (cpu [1, 0])]"
  using guarded_move [of opt0 "new_model fw0 (CrNN_audio 1 10 2)" fw0 BCELoss "cpu [1, 2]" "cpu [1, 0]" "[2]"]
    guarded_move [of "opt0\<lparr>opt_cuda := False\<rparr>" "new_model fw0 (CrNN_audio 1 10 2)" fw0 BCELoss
      "cpu [1, 2]" "cpu [1, 0]" "[2]"]
  by (simp add: opt0_def fw0_def new_model_def cpu_def cuda_def)

text \<open>
  C6 as stated fails: with \<^verbatim>\<open>opt.cuda\<close> false, a training batch whose tensors are on the
  CPU reaches the forward pass and the loss on the CPU, and \<^verbatim>\<open>.cuda()\<close> is called on no
  tensor, while the network is on CUDA.
\<close>

theorem unguarded_move_counterexample:
  "net_device (model_cuda (load_or_init_models fw0 (opt0\<lparr>opt_cuda := False\<rparr>) (new_model fw0 (CrNN_audio 1 10 2)))) = CUDA \<and>
   new_calls (new_model fw0 (CrNN_audio 1 10 2))
      (snd (train_audio fw0 BCELoss (opt0\<lparr>opt_cuda := False\<rparr>) (cpu [1, 2], cpu [1, 0], [2])
         (new_model fw0 (CrNN_audio 1 10 2)))) =
     [Net_train, Zero_grad,
      Net_call True (\<lparr>device = CPU, data = [100, 200]\<rparr>, [2]),
      Criterion_call \<lparr>device = CPU, data = [103, 203]\<rparr> \<lparr>device = CPU, data = [1, 0]\<rparr>,
      Backward, Optimizer_step]"
  by (simp add: train_audio_def prims Let_def new_calls_def opt0_def fw0_def new_model_def cpu_def
      cuda_def tensor_mul_def model_cuda_def load_or_init_models_def)

text \<open>
  C7. A test batch of the audio variant puts the network in evaluation mode and leaves
  its parameters, the state of the optimizer and the gradients as they were; so does
  the whole block
  \<^verbatim>\<open># Testing\<close> under \<^verbatim>\<open>torch.no_grad()\<close>. At the end of an epoch the parameters and the
  optimizer state are those the training batches of the epoch left.
\<close>

theorem evaluation_does_not_train:
  "training (snd (test_audio fw c opt dat w)) = False \<and>
   params (snd (test_audio fw c opt dat w)) = params w \<and>
   opt_state (snd (test_audio fw c opt dat w)) = opt_state w \<and>
   grads (snd (test_audio fw c opt dat w)) = grads w \<and>
   params (snd (no_grad (\<lambda>w. pass (audio_test_step fw c opt) tel ([], w)) w)) = params w \<and>
   opt_state (snd (no_grad (\<lambda>w. pass (audio_test_step fw c opt) tel ([], w)) w)) = opt_state w \<and>
   params (final_world (epoch_body opt (audio_train_step fw c opt) trl (audio_test_step fw c opt) tel e (avg, w))) =
     params (snd (pass (audio_train_step fw c opt) trl ([], w\<lparr>cur_epoch := Some e\<rparr>))) \<and>
   opt_state (final_world (epoch_body opt (audio_train_step fw c opt) trl (audio_test_step fw c opt) tel e (avg, w))) =
     opt_state (snd (pass (audio_train_step fw c opt) trl ([], w\<lparr>cur_epoch := Some e\<rparr>)))"
proof -
  have fr: "params (snd (audio_test_step fw c opt d w)) = params w"
           "opt_state (snd (audio_test_step fw c opt d w)) = opt_state w"
           "grads (snd (audio_test_step fw c opt d w)) = grads w" for d w
    by (simp_all add: snd_audio_test_step test_audio_frame)
  have p: "params (snd (pass (audio_test_step fw c opt) tel ([], w'))) = params w' \<and>
           opt_state (snd (pass (audio_test_step fw c opt) tel ([], w'))) = opt_state w' \<and>
           grads (snd (pass (audio_test_step fw c opt) tel ([], w'))) = grads w'" for w'
    by (rule pass_frame) (rule fr)+
  have ng: "params (snd (no_grad (\<lambda>w. pass (audio_test_step fw c opt) tel ([], w)) w)) = params w \<and>
            opt_state (snd (no_grad (\<lambda>w. pass (audio_test_step fw c opt) tel ([], w)) w)) = opt_state w"
    using p [of "w\<lparr>grad_enabled := False\<rparr>"] by (auto simp: no_grad_def split: prod.splits)
  have ep: "params (final_world (epoch_body opt (audio_train_step fw c opt) trl (audio_test_step fw c opt) tel e (avg, w))) =
              params (snd (pass (audio_train_step fw c opt) trl ([], w\<lparr>cur_epoch := Some e\<rparr>))) \<and>
            opt_state (final_world (epoch_body opt (audio_train_step fw c opt) trl (audio_test_step fw c opt) tel e (avg, w))) =
              opt_state (snd (pass (audio_train_step fw c opt) trl ([], w\<lparr>cur_epoch := Some e\<rparr>))) \<and>
            grads (final_world (epoch_body opt (audio_train_step fw c opt) trl (audio_test_step fw c opt) tel e (avg, w))) =
              grads (snd (pass (audio_train_step fw c opt) trl ([], w\<lparr>cur_epoch := Some e\<rparr>)))"
    by (rule epoch_body_frame) (rule fr)+
  have ev: "training (snd (test_audio fw c opt dat w)) = False"
    by (simp add: test_audio_def prims Let_def split: prod.splits)
  show ?thesis
    using ng ep ev by (simp add: test_audio_frame)
qed

theorem evaluation_does_not_train_witness:
  "params (snd (test_audio fw0 BCELoss opt0 batch_a (new_model fw0 (CrNN_audio 1 10 2)))) = [1, 2] \<and>
   opt_state (snd (test_audio fw0 BCELoss opt0 batch_a ((new_model fw0 (CrNN_audio 1 10 2))\<lparr>opt_state := [5]\<rparr>))) = [5] \<and>
   params (snd (train_audio fw0 BCELoss opt0 batch_a (new_model fw0 (CrNN_audio 1 10 2)))) = [0, 1]"
  using evaluation_does_not_train [of fw0 BCELoss opt0 batch_a "new_model fw0 (CrNN_audio 1 10 2)"]
    evaluation_does_not_train [of fw0 BCELoss opt0 batch_a "(new_model fw0 (CrNN_audio 1 10 2))\<lparr>opt_state := [5]\<rparr>"]
  by (simp add: new_model_def fw0_def train_audio_def prims Let_def batch_a_def opt0_def)

text \<open>
  C8. At an epoch where the checkpoint test holds, the score passed to
  \<^verbatim>\<open>save_if_best\<close> is the value of the statistic that comes last in the test
  statistics, divided by \<^verbatim>\<open>len(test_loader)\<close>; it is 0 when the test statistics are
  empty, which they are when the test loader has no batch. Both \<^verbatim>\<open>run_audio\<close> and
  \<^verbatim>\<open>run\<close>.
\<close>

theorem checkpoint_score:
  "proj sel_score (trace (final_world
      (epoch_body opt (audio_train_step fw c opt) trl (audio_test_step fw c opt) tel e (avg, w)))) =
     proj sel_score (trace w) @
     (if py_mod e (opt_checkpoint_interval opt) = Inr 0
      then [(Some e,
             if test_stats opt (audio_train_step fw c opt) trl (audio_test_step fw c opt) tel e w = [] then 0
             else snd (last (test_stats opt (audio_train_step fw c opt) trl (audio_test_step fw c opt) tel e w)) /
                  real (length tel))]
      else []) \<and>
   test_stats opt (audio_train_step fw c opt) trl (audio_test_step fw c opt) [] e w = [] \<and>
   proj sel_score (trace (final_world
      (epoch_body opt (av_train_step fw' c' tv opt) trl' (av_test_step fw' c' tv opt) tel' e (avg, w')))) =
     proj sel_score (trace w') @
     (if py_mod e (opt_checkpoint_interval opt) = Inr 0
      then [(Some e,
             if test_stats opt (av_train_step fw' c' tv opt) trl' (av_test_step fw' c' tv opt) tel' e w' = [] then 0
             else snd (last (test_stats opt (av_train_step fw' c' tv opt) trl' (av_test_step fw' c' tv opt) tel' e w')) /
                  real (length tel'))]
      else []) \<and>
   test_stats opt (av_train_step fw' c' tv opt) trl' (av_test_step fw' c' tv opt) [] e w' = []"
  using epoch_score [of "audio_train_step fw c opt" "audio_test_step fw c opt" opt trl tel e avg w]
    epoch_score [of "av_train_step fw' c' tv opt" "av_test_step fw' c' tv opt" opt trl' tel' e avg w']
  by (simp add: snd_audio_train_step snd_audio_test_step train_audio_epoch test_audio_frame
      train_epoch test_epoch quiet_score test_stats_Nil)

theorem checkpoint_score_witness:
  "proj sel_score (trace (final_world
      (epoch_body opt0 (audio_train_step fw0 BCELoss opt0) [batch_a, batch_b]
         (audio_test_step fw0 BCELoss opt0) [batch_b] 0 (None, net0)))) =
     [(Some 0, 1 / 2)] \<and>
   proj sel_score (trace (final_world
      (epoch_body opt0 (audio_train_step fw0 BCELoss opt0) [batch_a, batch_b]
         (audio_test_step fw0 BCELoss opt0) [] 0 (None, net0)))) =
     [(Some 0, 0)] \<and>
   proj sel_score (trace (final_world
      (epoch_body opt0 (av_train_step fw1 CrossEntropyLoss to_variables0 opt0) [batch_c, batch_d]
         (av_test_step fw1 CrossEntropyLoss to_variables0 opt0) [batch_d] 2
         (None, net1)))) =
     [(Some 2, - 1 / 2)]"
proof -
  have t: "trace net0 = []" "trace net1 = []"
    by (simp_all add: net0_def net1_def new_model_def)
  have c: "opt_checkpoint_interval opt0 = 2"
    by (simp add: opt0_def)
  show ?thesis
    using checkpoint_score [of opt0 fw0 BCELoss "[batch_a, batch_b]" "[batch_b]" 0 None
        net0 fw1 CrossEntropyLoss to_variables0 "[batch_c, batch_d]" "[batch_d]"
        net1]
      checkpoint_score [of opt0 fw0 BCELoss "[batch_a, batch_b]" "[]" 0 None
        net0 fw1 CrossEntropyLoss to_variables0 "[batch_c, batch_d]" "[batch_d]"
        net1]
      checkpoint_score [of opt0 fw0 BCELoss "[batch_a, batch_b]" "[batch_b]" 2 None
        net0 fw1 CrossEntropyLoss to_variables0 "[batch_c, batch_d]" "[batch_d]"
        net1]
    by (simp add: toy_test_stats toy_test_stats_av t c py_mod_def)
qed

text \<open>
  C9. In the audio variant the training forward pass is called on \<^verbatim>\<open>volumes*100\<close> and
  the test forward pass on \<^verbatim>\<open>volumes\<close>: for the same batch the two inputs differ by
  the factor 100 in every value, and in nothing else.
\<close>

theorem train_scaled_test_unscaled:
  "proj sel_call (new_calls w (snd (train_audio fw c opt (v, l, n) w))) =
     [(True, (tensor_mul (if opt_cuda opt then cuda v else v) 100, n))] \<and>
   proj sel_call (new_calls w' (snd (test_audio fw c opt (v, l, n) w'))) =
     [(False, (if opt_cuda opt then cuda v else v, n))] \<and>
   data (tensor_mul (if opt_cuda opt then cuda v else v) 100) =
     map (\<lambda>x. x * 100) (data (if opt_cuda opt then cuda v else v)) \<and>
   device (tensor_mul (if opt_cuda opt then cuda v else v) 100) =
     device (if opt_cuda opt then cuda v else v)"
  by (simp add: train_audio_calls test_audio_calls tensor_mul_def)

theorem train_scaled_test_unscaled_witness:
  "proj sel_call (new_calls (new_model fw0 (CrNN_audio 1 10 2))
      (snd (train_audio fw0 BCELoss opt0 (cpu [1, 2], cpu [1, 0], [2]) (new_model fw0 (CrNN_audio 1 10 2))))) =
     [(True, (\<lparr>device = CUDA, data = [100, 200]\<rparr>, [2]))] \<and>
   proj sel_call (new_calls (new_model fw0 (CrNN_audio 1 10 2))
      (snd (test_audio fw0 BCELoss opt0 (cpu [1, 2], cpu [1, 0], [2]) (new_model fw0 (CrNN_audio 1 10 2))))) =
     [(False, (\<lparr>device = CUDA, data = [1, 2]\<rparr>, [2]))]"
  using train_scaled_test_unscaled [of "new_model fw0 (CrNN_audio 1 10 2)" fw0 BCELoss opt0
      "cpu [1, 2]" "cpu [1, 0]" "[2]" "new_model fw0 (CrNN_audio 1 10 2)"]
  by (simp add: opt0_def cpu_def cuda_def tensor_mul_def)

text \<open>
  C10. When the two loops of \<^verbatim>\<open>benchmark\<close> have gone through the training loader and
  then the test loader, \<^verbatim>\<open>idx\<close> is \<^verbatim>\<open>len(train_loader) + len(test_loader)\<close>, the
  indices assigned in \<^verbatim>\<open>output\<close> and in \<^verbatim>\<open>label_glob\<close> are \<open>0, 1, ..., idx - 1\<close>, each
  once, both arrays have that length, \<^verbatim>\<open>output\<close> holds the outputs of the network in
  the order of the batches, and \<^verbatim>\<open>final_tag\<close> is its elementwise \<^verbatim>\<open>np.round\<close>, of the
  same length. The loops do go through whenever every output holds one element: no
  index is out of range.
\<close>

theorem benchmark_arrays:
  "(benchmark_loops fw il tv opt = Inr (output, label_glob, idx, w) \<longrightarrow>
      idx = length (fst (il opt None)) + length (snd (il opt None)) \<and>
      written output = [0..<idx] \<and> written label_glob = [0..<idx] \<and>
      length (cells output) = idx \<and> length (cells label_glob) = idx \<and>
      cells output =
        concat (map (bench_output fw tv opt (benchmark_net fw opt)) (fst (il opt None) @ snd (il opt None))) \<and>
      benchmark fw il tv opt = Inr (map np_round (cells output)) \<and>
      length (map np_round (cells output)) = idx) \<and>
   (list_all (\<lambda>d. length (bench_output fw tv opt (benchmark_net fw opt) d) = 1)
      (fst (il opt None) @ snd (il opt None)) \<longrightarrow>
    \<not> isl (benchmark_loops fw il tv opt))"
proof -
  obtain trl tel where il: "il opt None = (trl, tel)" by (cases "il opt None")
  show ?thesis
    using benchmark_loops_result [of il opt trl tel fw tv "output" label_glob idx w]
      benchmark_loops_total [of il opt trl tel fw tv]
    by (auto simp: il benchmark_def)
qed

theorem benchmark_arrays_witness:
  "list_all (\<lambda>d. length (bench_output fw1 to_variables0 opt0 (benchmark_net fw1 opt0) d) = 1)
     (fst (loaders2 opt0 None) @ snd (loaders2 opt0 None)) \<and>
   benchmark fw1 loaders2 to_variables0 opt0 = Inr [9, 2, 4]"
proof -
  have ld: "fst (loaders2 opt0 None) @ snd (loaders2 opt0 None) = [batch_c, batch_c', batch_d]"
    by (simp add: loaders2_def)
  have one: "list_all (\<lambda>d. length (bench_output fw1 to_variables0 opt0 (benchmark_net fw1 opt0) d) = 1)
     (fst (loaders2 opt0 None) @ snd (loaders2 opt0 None))"
    using toy_bench_outputs unfolding ld by simp
  obtain outp lg i w where r: "benchmark_loops fw1 loaders2 to_variables0 opt0 = Inr (outp, lg, i, w)"
    using benchmark_arrays [of fw1 loaders2 to_variables0 opt0] one
    by (cases "benchmark_loops fw1 loaders2 to_variables0 opt0") auto
  have "cells outp = concat (map (bench_output fw1 to_variables0 opt0 (benchmark_net fw1 opt0))
            (fst (loaders2 opt0 None) @ snd (loaders2 opt0 None)))"
    and b: "benchmark fw1 loaders2 to_variables0 opt0 = Inr (map np_round (cells outp))"
    using benchmark_arrays [of fw1 loaders2 to_variables0 opt0 outp lg i w] r by blast+
  then have "cells outp = [9, 5 / 2, 7 / 2]"
    unfolding ld toy_bench_outputs by simp
  then show ?thesis
    using one b toy_np_round by simp
qed

end
